theory Spec2Isabelle
  imports Main
begin

section \<open>Python values and runtime types\<close>

text \<open>
  The module \<^verbatim>\<open>cloudant/_common_util.py\<close> works on plain Python values. The values the
  embedding covers are \<^verbatim>\<open>None\<close>, booleans, integers, text strings, byte strings, lists,
  tuples and dictionaries with string keys. A character of a string stands for the code
  point of the same number (below 256).
\<close>

datatype pyval =
    PNone
  | PBool bool
  | PInt int
  | PStr string
  | PBytes string
  | PList "pyval list"
  | PTuple "pyval list"
  | PDict "(string \<times> pyval) list"

text \<open>
  The type objects that occur in the argument tables. \<open>T_Sequence\<close> is the abstract base
  class \<^verbatim>\<open>collections.Sequence\<close>: no value has it as its exact type.
\<close>

datatype pytype =
    T_bool | T_int | T_str | T_bytes | T_list | T_tuple | T_dict | T_NoneType | T_Sequence

fun type_of :: "pyval \<Rightarrow> pytype" where
  "type_of PNone = T_NoneType"
| "type_of (PBool b) = T_bool"
| "type_of (PInt i) = T_int"
| "type_of (PStr s) = T_str"
| "type_of (PBytes s) = T_bytes"
| "type_of (PList xs) = T_list"
| "type_of (PTuple xs) = T_tuple"
| "type_of (PDict kvs) = T_dict"

text \<open>
  \<^verbatim>\<open>issubclass\<close>: every type is a subclass of itself, \<^verbatim>\<open>bool\<close> is a subclass of
  \<^verbatim>\<open>int\<close>, and the strings, byte strings, lists and tuples are (registered) subclasses of
  \<^verbatim>\<open>Sequence\<close>.
\<close>

definition issubclass :: "pytype \<Rightarrow> pytype \<Rightarrow> bool" where
  "issubclass c t =
     (c = t \<or> (c = T_bool \<and> t = T_int) \<or>
      (t = T_Sequence \<and> (c = T_str \<or> c = T_bytes \<or> c = T_list \<or> c = T_tuple)))"

text \<open>\<^verbatim>\<open>isinstance(val, types)\<close> with a tuple of types.\<close>

definition isinstance :: "pyval \<Rightarrow> pytype list \<Rightarrow> bool" where
  "isinstance val types = list_ex (issubclass (type_of val)) types"

text \<open>
  The names imported from \<^verbatim>\<open>cloudant/_2to3.py\<close>, which is not among the sources. They are
  the host language's integer, string and null types; the values are the ones of
  Python 3, where \<^verbatim>\<open>long\<close> and \<^verbatim>\<open>unicode\<close> are \<^verbatim>\<open>int\<close> and \<^verbatim>\<open>str\<close>.
\<close>

definition LONGTYPE :: pytype where "LONGTYPE = T_int"
definition STRTYPE :: pytype where "STRTYPE = T_str"
definition UNITYPE :: pytype where "UNITYPE = T_str"
definition NONETYPE :: pytype where "NONETYPE = T_NoneType"

section \<open>Exceptions\<close>

text \<open>
  The exceptions of the \<^verbatim>\<open>requests\<close> library all derive from \<^verbatim>\<open>RequestException\<close>:
  the failures of the transport, the \<^verbatim>\<open>HTTPError\<close> that
  \<^verbatim>\<open>Response.raise_for_status\<close> raises, and the \<^verbatim>\<open>JSONDecodeError\<close> that
  \<^verbatim>\<open>Response.json\<close> raises for a body that is not JSON (it is a \<^verbatim>\<open>ValueError\<close> as well,
  but no \<^verbatim>\<open>except ValueError\<close> of the functions modelled here is around such a call).
\<close>

datatype request_exception = ConnectionError | Timeout | HTTPError | JSONDecodeError

datatype pyexc =
    TypeError
  | ValueError
  | KeyError string
  | AttributeError
  | RequestException request_exception

text \<open>The arguments a \<^verbatim>\<open>CloudantArgumentError\<close> is raised with, after its code.\<close>

datatype errarg = AKey string | ATypes "pytype list" | AVal pyval | AExc pyexc

text \<open>
  What a call can raise: an exception of Python or of \<^verbatim>\<open>requests\<close> that nothing
  caught, a \<^verbatim>\<open>CloudantArgumentError\<close> with its code and arguments, or a
  \<^verbatim>\<open>CloudantException\<close> with its message.
\<close>

datatype error =
    Raised pyexc
  | CloudantArgumentError nat "errarg list"
  | CloudantException pyval

section \<open>\<^verbatim>\<open>json.dumps\<close>\<close>

text \<open>
  The standard library's \<^verbatim>\<open>json.dumps\<close> with its default arguments: ASCII output,
  \<^verbatim>\<open>", "\<close> between items and \<^verbatim>\<open>": "\<close> after a key. A byte string is not
  serializable (\<^verbatim>\<open>TypeError\<close>).
\<close>

definition digit_char :: "nat \<Rightarrow> char" where
  "digit_char d = char_of (48 + d)"

function str_nat :: "nat \<Rightarrow> string" where
  "str_nat n = (if n < 10 then [digit_char n] else str_nat (n div 10) @ [digit_char (n mod 10)])"
  by pat_completeness auto
termination
  by (relation "measure id") auto

declare str_nat.simps [simp del]

definition str_int :: "int \<Rightarrow> string" where
  "str_int i = (if i < 0 then CHR ''-'' # str_nat (nat (- i)) else str_nat (nat i))"

definition hex_char :: "nat \<Rightarrow> char" where
  "hex_char d = (if d < 10 then char_of (48 + d) else char_of (87 + d))"

definition escape_char :: "char \<Rightarrow> string" where
  "escape_char c =
     (let n = (of_char c :: nat) in
      if n = 34 then [CHR 0x5C, CHR 0x22]
      else if n = 92 then [CHR 0x5C, CHR 0x5C]
      else if n = 10 then [CHR 0x5C, CHR ''n'']
      else if n = 13 then [CHR 0x5C, CHR ''r'']
      else if n = 9 then [CHR 0x5C, CHR ''t'']
      else if n = 8 then [CHR 0x5C, CHR ''b'']
      else if n = 12 then [CHR 0x5C, CHR ''f'']
      else if 32 \<le> n \<and> n \<le> 126 then [c]
      else [CHR 0x5C, CHR ''u'', CHR ''0'', CHR ''0'', hex_char (n div 16), hex_char (n mod 16)])"

definition encode_basestring_ascii :: "string \<Rightarrow> string" where
  "encode_basestring_ascii s = [CHR 0x22] @ concat (map escape_char s) @ [CHR 0x22]"

fun join :: "string \<Rightarrow> string list \<Rightarrow> string" where
  "join sep [] = []"
| "join sep [x] = x"
| "join sep (x # y # ys) = x @ sep @ join sep (y # ys)"

primrec json_dumps :: "pyval \<Rightarrow> pyexc + string"
  and json_dumps_list :: "pyval list \<Rightarrow> pyexc + string list"
  and json_dumps_items :: "(string \<times> pyval) list \<Rightarrow> pyexc + string list"
  and json_dumps_item :: "string \<times> pyval \<Rightarrow> pyexc + string"
where
  "json_dumps PNone = Inr ''null''"
| "json_dumps (PBool b) = Inr (if b then ''true'' else ''false'')"
| "json_dumps (PInt i) = Inr (str_int i)"
| "json_dumps (PStr s) = Inr (encode_basestring_ascii s)"
| "json_dumps (PBytes s) = Inl TypeError"
| "json_dumps (PList xs) =
     (case json_dumps_list xs of Inl e \<Rightarrow> Inl e
      | Inr ss \<Rightarrow> Inr (''['' @ join '', '' ss @ '']''))"
| "json_dumps (PTuple xs) =
     (case json_dumps_list xs of Inl e \<Rightarrow> Inl e
      | Inr ss \<Rightarrow> Inr (''['' @ join '', '' ss @ '']''))"
| "json_dumps (PDict kvs) =
     (case json_dumps_items kvs of Inl e \<Rightarrow> Inl e
      | Inr ss \<Rightarrow> Inr (''{'' @ join '', '' ss @ ''}''))"
| "json_dumps_list [] = Inr []"
| "json_dumps_list (x # xs) =
     (case json_dumps x of Inl e \<Rightarrow> Inl e
      | Inr s \<Rightarrow> (case json_dumps_list xs of Inl e \<Rightarrow> Inl e | Inr ss \<Rightarrow> Inr (s # ss)))"
| "json_dumps_items [] = Inr []"
| "json_dumps_items (kv # kvs) =
     (case json_dumps_item kv of Inl e \<Rightarrow> Inl e
      | Inr s \<Rightarrow> (case json_dumps_items kvs of Inl e \<Rightarrow> Inl e | Inr ss \<Rightarrow> Inr (s # ss)))"
| "json_dumps_item (k, v) =
     (case json_dumps v of Inl e \<Rightarrow> Inl e
      | Inr s \<Rightarrow> Inr (encode_basestring_ascii k @ '': '' @ s))"

section \<open>Dictionaries\<close>

text \<open>
  A dictionary is the list of its items in insertion order. \<open>dict_setitem\<close> is
  \<^verbatim>\<open>d[k] = v\<close>: it replaces the value of a key that is present and appends a new key.
  \<open>dict_update\<close> is \<^verbatim>\<open>d.update(e)\<close>, and \<open>dict_literal\<close> builds a dictionary display,
  where a later item with the same key wins.
\<close>

fun dict_setitem :: "('k \<times> 'v) list \<Rightarrow> 'k \<Rightarrow> 'v \<Rightarrow> ('k \<times> 'v) list" where
  "dict_setitem [] k v = [(k, v)]"
| "dict_setitem ((k', v') # d) k v =
     (if k' = k then (k, v) # d else (k', v') # dict_setitem d k v)"

fun dict_update :: "('k \<times> 'v) list \<Rightarrow> ('k \<times> 'v) list \<Rightarrow> ('k \<times> 'v) list" where
  "dict_update d [] = d"
| "dict_update d ((k, v) # e) = dict_update (dict_setitem d k v) e"

definition dict_literal :: "('k \<times> 'v) list \<Rightarrow> ('k \<times> 'v) list" where
  "dict_literal items = dict_update [] items"

definition dict_keys :: "('k \<times> 'v) list \<Rightarrow> 'k set" where
  "dict_keys d = set (map fst d)"

text \<open>\<^verbatim>\<open>d.get(k)\<close> is \<open>map_of d k\<close>.\<close>

section \<open>Argument types\<close>

definition RESULT_ARG_TYPES :: "(string \<times> pytype list) list" where
  "RESULT_ARG_TYPES = dict_literal [
     (''descending'', [T_bool]),
     (''endkey'', [T_int, LONGTYPE, STRTYPE, T_Sequence]),
     (''endkey_docid'', [STRTYPE]),
     (''group'', [T_bool]),
     (''group_level'', [T_int, LONGTYPE, NONETYPE]),
     (''include_docs'', [T_bool]),
     (''inclusive_end'', [T_bool]),
     (''key'', [T_int, LONGTYPE, STRTYPE, T_Sequence]),
     (''keys'', [T_list]),
     (''limit'', [T_int, LONGTYPE, NONETYPE]),
     (''reduce'', [T_bool]),
     (''skip'', [T_int, LONGTYPE, NONETYPE]),
     (''stale'', [STRTYPE]),
     (''startkey'', [T_int, LONGTYPE, STRTYPE, T_Sequence]),
     (''startkey_docid'', [STRTYPE])]"

text \<open>
  Iterating over a value (\<^verbatim>\<open>for x in val\<close>, \<^verbatim>\<open>list(val)\<close>): the items of a list or
  tuple, the characters of a string, the bytes of a byte string, the keys of a
  dictionary; the other values are not iterable.
\<close>

fun iter_items :: "pyval \<Rightarrow> pyexc + pyval list" where
  "iter_items (PList xs) = Inr xs"
| "iter_items (PTuple xs) = Inr xs"
| "iter_items (PStr s) = Inr (map (\<lambda>c. PStr [c]) s)"
| "iter_items (PBytes s) = Inr (map (\<lambda>c. PInt (of_char c)) s)"
| "iter_items (PDict kvs) = Inr (map (\<lambda>kv. PStr (fst kv)) kvs)"
| "iter_items PNone = Inl TypeError"
| "iter_items (PBool b) = Inl TypeError"
| "iter_items (PInt i) = Inl TypeError"

text \<open>The truth value of a value (\<^verbatim>\<open>x if c else y\<close>).\<close>

fun truthy :: "pyval \<Rightarrow> bool" where
  "truthy PNone = False"
| "truthy (PBool b) = b"
| "truthy (PInt i) = (i \<noteq> 0)"
| "truthy (PStr s) = (s \<noteq> [])"
| "truthy (PBytes s) = (s \<noteq> [])"
| "truthy (PList xs) = (xs \<noteq> [])"
| "truthy (PTuple xs) = (xs \<noteq> [])"
| "truthy (PDict kvs) = (kvs \<noteq> [])"

text \<open>
  The converters, by exact runtime type. \<open>conv_dumps\<close> is
  \<^verbatim>\<open>lambda x: json.dumps(x)\<close>, \<open>conv_dumps_list\<close> is \<^verbatim>\<open>lambda x: json.dumps(list(x))\<close>,
  \<open>conv_id\<close> is \<^verbatim>\<open>lambda x: x\<close> and \<open>conv_bool\<close> is
  \<^verbatim>\<open>lambda x: 'true' if x else 'false'\<close>.
\<close>

definition conv_dumps :: "pyval \<Rightarrow> pyexc + pyval" where
  "conv_dumps x = (case json_dumps x of Inl e \<Rightarrow> Inl e | Inr s \<Rightarrow> Inr (PStr s))"

definition conv_dumps_list :: "pyval \<Rightarrow> pyexc + pyval" where
  "conv_dumps_list x =
     (case iter_items x of Inl e \<Rightarrow> Inl e | Inr xs \<Rightarrow> conv_dumps (PList xs))"

definition conv_id :: "pyval \<Rightarrow> pyexc + pyval" where
  "conv_id x = Inr x"

definition conv_bool :: "pyval \<Rightarrow> pyexc + pyval" where
  "conv_bool x = Inr (PStr (if truthy x then ''true'' else ''false''))"

definition TYPE_CONVERTERS :: "(pytype \<times> (pyval \<Rightarrow> pyexc + pyval)) list" where
  "TYPE_CONVERTERS = dict_literal [
     (STRTYPE, conv_dumps),
     (T_str, conv_dumps),
     (UNITYPE, conv_dumps),
     (T_Sequence, conv_dumps_list),
     (T_list, conv_dumps),
     (T_tuple, conv_dumps_list),
     (T_int, conv_id),
     (LONGTYPE, conv_id),
     (T_bool, conv_bool),
     (NONETYPE, conv_id)]"

definition COUCH_DB_UPDATES_ARG_TYPES :: "(string \<times> pytype list) list" where
  "COUCH_DB_UPDATES_ARG_TYPES = dict_literal [
     (''feed'', [STRTYPE]),
     (''heartbeat'', [T_bool]),
     (''timeout'', [T_int, LONGTYPE, NONETYPE])]"

definition DB_UPDATES_ARG_TYPES :: "(string \<times> pytype list) list" where
  "DB_UPDATES_ARG_TYPES =
     dict_setitem
       (dict_update
          (dict_literal [
             (''descending'', [T_bool]),
             (''limit'', [T_int, LONGTYPE, NONETYPE]),
             (''since'', [T_int, LONGTYPE, STRTYPE])])
          COUCH_DB_UPDATES_ARG_TYPES)
       ''heartbeat'' [T_int, LONGTYPE, NONETYPE]"

definition CHANGES_ARG_TYPES :: "(string \<times> pytype list) list" where
  "CHANGES_ARG_TYPES =
     dict_update
       (dict_literal [
          (''conflicts'', [T_bool]),
          (''doc_ids'', [T_list]),
          (''filter'', [STRTYPE]),
          (''include_docs'', [T_bool]),
          (''style'', [STRTYPE])])
       DB_UPDATES_ARG_TYPES"

section \<open>Functions\<close>

definition feed_arg_types :: "string \<Rightarrow> (string \<times> pytype list) list" where
  "feed_arg_types feed_type =
     (if feed_type = ''Cloudant'' then DB_UPDATES_ARG_TYPES
      else if feed_type = ''CouchDB'' then COUCH_DB_UPDATES_ARG_TYPES
      else CHANGES_ARG_TYPES)"

text \<open>
  The loop of \<^verbatim>\<open>py_to_couch_validate\<close> over the elements of a \<^verbatim>\<open>keys\<close> list: the first
  element that is not an instance of the types of \<^verbatim>\<open>key\<close>, or is a boolean, raises
  error 134.
\<close>

fun validate_key_list :: "pytype list \<Rightarrow> pyval list \<Rightarrow> error + unit" where
  "validate_key_list key_types [] = Inr ()"
| "validate_key_list key_types (key_list_val # rest) =
     (if \<not> isinstance key_list_val key_types \<or> type_of key_list_val = T_bool
      then Inl (CloudantArgumentError 134 [ATypes key_types])
      else validate_key_list key_types rest)"

definition validate_keys :: "pyval \<Rightarrow> error + unit" where
  "validate_keys val =
     (case iter_items val of
        Inl e \<Rightarrow> Inl (Raised e)
      | Inr xs \<Rightarrow>
          (case map_of RESULT_ARG_TYPES ''key'' of
             None \<Rightarrow> (if xs = [] then Inr () else Inl (Raised (KeyError ''key'')))
           | Some key_types \<Rightarrow> validate_key_list key_types xs))"

definition py_to_couch_validate :: "string \<Rightarrow> pyval \<Rightarrow> error + unit" where
  "py_to_couch_validate key val =
     (case map_of RESULT_ARG_TYPES key of
        None \<Rightarrow> Inl (CloudantArgumentError 116 [AKey key])
      | Some types \<Rightarrow>
          if \<not> isinstance val types \<or> (type_of val = T_bool \<and> T_int \<in> set types)
          then Inl (CloudantArgumentError 117 [AKey key, ATypes types])
          else
            (case (if key = ''keys'' then validate_keys val else Inr ()) of
               Inl e \<Rightarrow> Inl e
             | Inr u \<Rightarrow>
                 if key = ''stale'' \<and> val \<noteq> PStr ''ok'' \<and> val \<noteq> PStr ''update_after''
                 then Inl (CloudantArgumentError 135 [AVal val])
                 else Inr ()))"

text \<open>
  \<^verbatim>\<open>_py_to_couch_translate\<close> (an Isabelle name cannot start with an underscore). A type
  with no converter makes \<^verbatim>\<open>TYPE_CONVERTERS.get\<close> return \<^verbatim>\<open>None\<close>, and calling it
  raises \<^verbatim>\<open>TypeError\<close>; every exception of the body is raised again as error 136.
\<close>

definition py_to_couch_translate :: "string \<Rightarrow> pyval \<Rightarrow> error + (string \<times> pyval) list" where
  "py_to_couch_translate key val =
     (if key \<in> set [''keys'', ''endkey_docid'', ''startkey_docid'', ''stale'']
      then Inr [(key, val)]
      else if val = PNone then Inr [(key, PNone)]
      else
        (case (case map_of TYPE_CONVERTERS (type_of val) of
                 None \<Rightarrow> Inl TypeError
               | Some arg_converter \<Rightarrow> arg_converter val) of
           Inl ex \<Rightarrow> Inl (CloudantArgumentError 136 [AKey key, AExc ex])
         | Inr v \<Rightarrow> Inr [(key, v)]))"

text \<open>
  \<^verbatim>\<open>python_to_couch\<close> works on dictionary objects: the store is the list of the
  dictionaries allocated so far, and an object is its index there. \<^verbatim>\<open>dict()\<close> allocates
  the dictionary \<open>translation\<close> at the end of the store; the loop body validates and
  translates one item of \<open>options\<close> and updates \<open>translation\<close> in place. The result is the
  reference to \<open>translation\<close>, or the error raised, with the store as the call left it.
  \<^verbatim>\<open>iteritems_\<close> (of \<^verbatim>\<open>_2to3\<close>, not among the sources) is the iteration over the items of
  the dictionary, in their order.
\<close>

type_synonym store = "(string \<times> pyval) list list"

fun translate_items ::
  "(string \<times> pyval) list \<Rightarrow> nat \<Rightarrow> store \<Rightarrow> (error + unit) \<times> store" where
  "translate_items [] translation h = (Inr (), h)"
| "translate_items ((key, val) # rest) translation h =
     (case py_to_couch_validate key val of
        Inl e \<Rightarrow> (Inl e, h)
      | Inr u \<Rightarrow>
          (case py_to_couch_translate key val of
             Inl e \<Rightarrow> (Inl e, h)
           | Inr d \<Rightarrow>
               translate_items rest translation
                 (h[translation := dict_update (h ! translation) d])))"

definition python_to_couch_obj :: "store \<Rightarrow> nat \<Rightarrow> (error + nat) \<times> store" where
  "python_to_couch_obj h options =
     (let translation = length h;
          h1 = h @ [[]]
      in case translate_items (h1 ! options) translation h1 of
           (Inl e, h2) \<Rightarrow> (Inl e, h2)
         | (Inr u, h2) \<Rightarrow> (Inr translation, h2))"

text \<open>The same call on a dictionary value: the dictionary it returns, or the error.\<close>

definition python_to_couch :: "(string \<times> pyval) list \<Rightarrow> error + (string \<times> pyval) list" where
  "python_to_couch options =
     (case python_to_couch_obj [options] 0 of
        (Inl e, h) \<Rightarrow> Inl e
      | (Inr translation, h) \<Rightarrow> Inr (h ! translation))"

section \<open>Responses, requests and the transport\<close>

text \<open>
  What the module reads of a \<^verbatim>\<open>requests\<close> response: the status code, the result of
  \<^verbatim>\<open>resp.json()\<close> (\<open>None\<close> when the body is not JSON, which makes the call raise) and
  the cookies the response sets.
\<close>

record cookie =
  cookie_name :: string
  expires :: "nat option"

record response =
  status_code :: int
  json_body :: "pyval option"
  set_cookies :: "cookie list"

record request =
  req_method :: string
  req_url :: string
  req_kwargs :: "(string \<times> pyval) list"

text \<open>
  The world outside the session: the trace of what happened so far (a request sent, or a
  call of \<^verbatim>\<open>login\<close>, which is recorded for the claims that count them), the cookie store
  of the session and the time. The server and the network are a function of the requests
  sent so far: it answers the last of them with a response, or the transport fails.
\<close>

datatype event = Login | Send request

record world =
  trace :: "event list"
  cookies :: "cookie list"
  clock :: nat

type_synonym server = "request list \<Rightarrow> request_exception + response"

fun sent :: "event list \<Rightarrow> request list" where
  "sent [] = []"
| "sent (Login # es) = sent es"
| "sent (Send rq # es) = rq # sent es"

text \<open>A cookie of a response replaces the stored cookies of the same name.\<close>

definition store_cookies :: "cookie list \<Rightarrow> cookie list \<Rightarrow> cookie list" where
  "store_cookies new jar =
     new @ filter (\<lambda>c. cookie_name c \<notin> set (map cookie_name new)) jar"

text \<open>
  \<^verbatim>\<open>requests.Session.request\<close>: the request is sent; a failure of the transport is raised,
  and the cookies of a response are stored.
\<close>

definition Session_request ::
  "server \<Rightarrow> string \<Rightarrow> string \<Rightarrow> (string \<times> pyval) list \<Rightarrow> world \<Rightarrow> (error + response) \<times> world" where
  "Session_request srv method url kwargs w =
     (let w1 = w\<lparr>trace := trace w @
                 [Send \<lparr>req_method = method, req_url = url, req_kwargs = kwargs\<rparr>]\<rparr>
      in case srv (sent (trace w1)) of
           Inl e \<Rightarrow> (Inl (Raised (RequestException e)), w1)
         | Inr resp \<Rightarrow> (Inr resp, w1\<lparr>cookies := store_cookies (set_cookies resp) (cookies w1)\<rparr>))"

text \<open>\<^verbatim>\<open>Response.raise_for_status\<close> raises \<^verbatim>\<open>HTTPError\<close> for a status from 400 to 599.\<close>

definition raise_for_status :: "response \<Rightarrow> error + unit" where
  "raise_for_status resp =
     (if 400 \<le> status_code resp \<and> status_code resp < 600
      then Inl (Raised (RequestException HTTPError)) else Inr ())"

text \<open>
  \<^verbatim>\<open>Response.json\<close>: the parsed body, or the \<^verbatim>\<open>JSONDecodeError\<close> of \<^verbatim>\<open>requests\<close> for a
  body that is not JSON.
\<close>

definition response_json :: "response \<Rightarrow> error + pyval" where
  "response_json resp =
     (case json_body resp of
        None \<Rightarrow> Inl (Raised (RequestException JSONDecodeError))
      | Some j \<Rightarrow> Inr j)"

text \<open>
  \<^verbatim>\<open>x.get(k, default)\<close>, \<^verbatim>\<open>x[k]\<close> with a string \<open>k\<close>, and \<^verbatim>\<open>len(x)\<close>: only a dictionary has
  \<^verbatim>\<open>get\<close>, and only a dictionary can be indexed by a string.
\<close>

fun py_get :: "pyval \<Rightarrow> string \<Rightarrow> pyval \<Rightarrow> error + pyval" where
  "py_get (PDict kvs) k dflt = Inr (case map_of kvs k of None \<Rightarrow> dflt | Some v \<Rightarrow> v)"
| "py_get x k dflt = Inl (Raised AttributeError)"

fun py_getitem :: "pyval \<Rightarrow> string \<Rightarrow> error + pyval" where
  "py_getitem (PDict kvs) k =
     (case map_of kvs k of None \<Rightarrow> Inl (Raised (KeyError k)) | Some v \<Rightarrow> Inr v)"
| "py_getitem x k = Inl (Raised TypeError)"

fun py_len :: "pyval \<Rightarrow> error + nat" where
  "py_len (PStr s) = Inr (length s)"
| "py_len (PBytes s) = Inr (length s)"
| "py_len (PList xs) = Inr (length xs)"
| "py_len (PTuple xs) = Inr (length xs)"
| "py_len (PDict kvs) = Inr (length kvs)"
| "py_len x = Inl (Raised TypeError)"

section \<open>\<^verbatim>\<open>ClientSession\<close>\<close>

text \<open>
  \<^verbatim>\<open>ClientSession.request\<close> passes \<^verbatim>\<open>timeout=self._timeout\<close> with the caller's keyword
  arguments; a caller that passes \<^verbatim>\<open>timeout\<close> itself gets the \<^verbatim>\<open>TypeError\<close> of a repeated
  keyword argument, and nothing is sent.
\<close>

definition ClientSession_request ::
  "server \<Rightarrow> pyval \<Rightarrow> string \<Rightarrow> string \<Rightarrow> (string \<times> pyval) list \<Rightarrow> world \<Rightarrow>
     (error + response) \<times> world" where
  "ClientSession_request srv timeout method url kwargs w =
     (if ''timeout'' \<in> dict_keys kwargs then (Inl (Raised TypeError), w)
      else Session_request srv method url ((''timeout'', timeout) # kwargs) w)"

section \<open>\<^verbatim>\<open>CookieSession\<close>\<close>

record CookieSession =
  cookie_timeout :: pyval
  cookie_username :: pyval
  cookie_password :: pyval
  auto_renew :: bool
  session_url :: string

definition CookieSession_login :: "server \<Rightarrow> CookieSession \<Rightarrow> world \<Rightarrow> (error + unit) \<times> world" where
  "CookieSession_login srv self w =
     (case ClientSession_request srv (cookie_timeout self) ''POST'' (session_url self)
             [(''data'', PDict [(''name'', cookie_username self), (''password'', cookie_password self)])]
             (w\<lparr>trace := trace w @ [Login]\<rparr>) of
        (Inl e, w1) \<Rightarrow> (Inl e, w1)
      | (Inr resp, w1) \<Rightarrow> (raise_for_status resp, w1))"

text \<open>
  The test of \<^verbatim>\<open>CookieSession.request\<close>: the tuple given to \<^verbatim>\<open>any\<close> is built first, so
  for a status 403 the body is parsed (which can raise) before the status 401 is looked
  at.
\<close>

definition is_expired :: "response \<Rightarrow> error + bool" where
  "is_expired resp =
     (if status_code resp = 403
      then (case response_json resp of
              Inl e \<Rightarrow> Inl e
            | Inr j \<Rightarrow>
                (case py_get j ''error'' PNone of
                   Inl e \<Rightarrow> Inl e
                 | Inr v \<Rightarrow> Inr (v = PStr ''credentials_expired'' \<or> status_code resp = 401)))
      else Inr (status_code resp = 401))"

definition CookieSession_request ::
  "server \<Rightarrow> CookieSession \<Rightarrow> string \<Rightarrow> string \<Rightarrow> (string \<times> pyval) list \<Rightarrow> world \<Rightarrow>
     (error + response) \<times> world" where
  "CookieSession_request srv self method url kwargs w =
     (case ClientSession_request srv (cookie_timeout self) method url kwargs w of
        (Inl e, w1) \<Rightarrow> (Inl e, w1)
      | (Inr resp, w1) \<Rightarrow>
          if \<not> auto_renew self then (Inr resp, w1)
          else
            (case is_expired resp of
               Inl e \<Rightarrow> (Inl e, w1)
             | Inr expired \<Rightarrow>
                 if expired
                 then (case CookieSession_login srv self w1 of
                         (Inl e, w2) \<Rightarrow> (Inl e, w2)
                       | (Inr u, w2) \<Rightarrow>
                           ClientSession_request srv (cookie_timeout self) method url kwargs w2)
                 else (Inr resp, w1)))"

section \<open>\<^verbatim>\<open>IAMSession\<close>\<close>

record IAMSession =
  iam_timeout :: pyval
  api_key :: pyval
  iam_auto_renew :: bool
  iam_session_url :: string
  token_url :: string

text \<open>
  The \<^verbatim>\<open>except\<close> clauses of \<^verbatim>\<open>_get_access_token\<close>, with the value of \<^verbatim>\<open>err\<close> at the time of
  the exception: a \<^verbatim>\<open>KeyError\<close> and a \<^verbatim>\<open>RequestException\<close> are replaced, every other
  exception goes on.
\<close>

fun token_except :: "pyval \<Rightarrow> error \<Rightarrow> error" where
  "token_except err (Raised (KeyError k)) =
     CloudantException (PStr ''Invalid response from IAM token service'')"
| "token_except err (Raised (RequestException x)) = CloudantException err"
| "token_except err e = e"

definition IAMSession_get_access_token ::
  "server \<Rightarrow> IAMSession \<Rightarrow> world \<Rightarrow> (error + pyval) \<times> world" where
  "IAMSession_get_access_token srv self w =
     (let err0 = PStr ''Failed to contact IAM token service'' in
      case ClientSession_request srv (iam_timeout self) ''POST'' (token_url self)
             [(''auth'', PTuple [PStr ''bx'', PStr ''bx'']),
              (''headers'', PDict [(''Accepts'', PStr ''application/json'')]),
              (''data'', PDict [
                 (''grant_type'', PStr ''urn:ibm:params:oauth:grant-type:apikey''),
                 (''response_type'', PStr ''cloud_iam''),
                 (''apikey'', api_key self)])] w of
        (Inl e, w1) \<Rightarrow> (Inl (token_except err0 e), w1)
      | (Inr resp, w1) \<Rightarrow>
          (case response_json resp of
             Inl e \<Rightarrow> (Inl (token_except err0 e), w1)
           | Inr j \<Rightarrow>
               (case py_get j ''errorMessage'' err0 of
                  Inl e \<Rightarrow> (Inl (token_except err0 e), w1)
                | Inr err \<Rightarrow>
                    (case raise_for_status resp of
                       Inl e \<Rightarrow> (Inl (token_except err e), w1)
                     | Inr u \<Rightarrow>
                         (case py_getitem j ''access_token'' of
                            Inl e \<Rightarrow> (Inl (token_except err e), w1)
                          | Inr access_token \<Rightarrow> (Inr access_token, w1))))))"

fun exchange_except :: "error \<Rightarrow> error" where
  "exchange_except (Raised (RequestException x)) =
     CloudantException (PStr ''Failed to exchange IAM token with Cloudant'')"
| "exchange_except e = e"

definition IAMSession_login :: "server \<Rightarrow> IAMSession \<Rightarrow> world \<Rightarrow> (error + unit) \<times> world" where
  "IAMSession_login srv self w =
     (case IAMSession_get_access_token srv self (w\<lparr>trace := trace w @ [Login]\<rparr>) of
        (Inl e, w1) \<Rightarrow> (Inl e, w1)
      | (Inr access_token, w1) \<Rightarrow>
          (case json_dumps (PDict [(''access_token'', access_token)]) of
             Inl ex \<Rightarrow> (Inl (Raised ex), w1)
           | Inr body \<Rightarrow>
               (case ClientSession_request srv (iam_timeout self) ''POST'' (iam_session_url self)
                       [(''headers'', PDict [(''Content-Type'', PStr ''application/json'')]),
                        (''data'', PStr body)] w1 of
                  (Inl e, w2) \<Rightarrow> (Inl (exchange_except e), w2)
                | (Inr resp, w2) \<Rightarrow>
                    (case raise_for_status resp of
                       Inl e \<Rightarrow> (Inl (exchange_except e), w2)
                     | Inr u \<Rightarrow> (Inr (), w2)))))"

text \<open>\<^verbatim>\<open>clear_expired_cookies\<close> drops the cookies whose expiry time has come.\<close>

definition clear_expired_cookies :: "nat \<Rightarrow> cookie list \<Rightarrow> cookie list" where
  "clear_expired_cookies now jar =
     filter (\<lambda>c. case expires c of None \<Rightarrow> True | Some t \<Rightarrow> now < t) jar"

definition IAMSession_request ::
  "server \<Rightarrow> IAMSession \<Rightarrow> string \<Rightarrow> string \<Rightarrow> (string \<times> pyval) list \<Rightarrow> world \<Rightarrow>
     (error + response) \<times> world" where
  "IAMSession_request srv self method url kwargs w =
     (let w1 = w\<lparr>cookies := clear_expired_cookies (clock w) (cookies w)\<rparr> in
      case (if iam_auto_renew self \<and> ''IAMSession'' \<notin> set (map cookie_name (cookies w1))
            then IAMSession_login srv self w1 else (Inr (), w1)) of
        (Inl e, w2) \<Rightarrow> (Inl e, w2)
      | (Inr u, w2) \<Rightarrow>
          (case ClientSession_request srv (iam_timeout self) method url kwargs w2 of
             (Inl e, w3) \<Rightarrow> (Inl e, w3)
           | (Inr resp, w3) \<Rightarrow>
               if \<not> iam_auto_renew self then (Inr resp, w3)
               else if status_code resp = 401
               then (case IAMSession_login srv self w3 of
                       (Inl e, w4) \<Rightarrow> (Inl e, w4)
                     | (Inr u', w4) \<Rightarrow>
                         ClientSession_request srv (iam_timeout self) method url kwargs w4)
               else (Inr resp, w3)))"

section \<open>\<^verbatim>\<open>CloudFoundryService\<close>\<close>

record CloudFoundryService =
  cf_host :: pyval
  cf_name :: pyval
  cf_password :: pyval
  cf_port :: pyval
  cf_username :: pyval

text \<open>
  \<^verbatim>\<open>json.loads\<close> takes a string or a byte string (anything else is a \<^verbatim>\<open>TypeError\<close>); what
  it makes of the text is the parameter \<open>loads\<close>, which raises \<^verbatim>\<open>ValueError\<close> on a text
  that is not JSON.
\<close>

definition json_loads :: "(string \<Rightarrow> pyexc + pyval) \<Rightarrow> pyval \<Rightarrow> error + pyval" where
  "json_loads loads x =
     (case x of
        PStr s \<Rightarrow> (case loads s of Inl e \<Rightarrow> Inl (Raised e) | Inr v \<Rightarrow> Inr v)
      | PBytes s \<Rightarrow> (case loads s of Inl e \<Rightarrow> Inl (Raised e) | Inr v \<Rightarrow> Inr v)
      | _ \<Rightarrow> Inl (Raised TypeError))"

text \<open>The body of the loop for the service that is selected.\<close>

definition read_service :: "pyval \<Rightarrow> error + CloudFoundryService" where
  "read_service service =
     (case py_getitem service ''credentials'' of
        Inl e \<Rightarrow> Inl e
      | Inr credentials \<Rightarrow>
     (case py_getitem credentials ''host'' of
        Inl e \<Rightarrow> Inl e
      | Inr host \<Rightarrow>
     (case py_get service ''name'' PNone of
        Inl e \<Rightarrow> Inl e
      | Inr name \<Rightarrow>
     (case py_getitem credentials ''password'' of
        Inl e \<Rightarrow> Inl e
      | Inr password \<Rightarrow>
     (case py_get credentials ''port'' (PInt 443) of
        Inl e \<Rightarrow> Inl e
      | Inr port \<Rightarrow>
     (case py_getitem credentials ''username'' of
        Inl e \<Rightarrow> Inl e
      | Inr username \<Rightarrow>
          Inr \<lparr>cf_host = host, cf_name = name, cf_password = password, cf_port = port,
               cf_username = username\<rparr>))))))"

text \<open>
  The \<^verbatim>\<open>for\<close> loop with its \<^verbatim>\<open>else\<close> clause: the first service that is selected is read,
  and a loop that ends without one raises the exception for a missing service.
\<close>

fun find_service :: "bool \<Rightarrow> pyval \<Rightarrow> pyval list \<Rightarrow> error + CloudFoundryService" where
  "find_service use_first name [] =
     Inl (CloudantException (PStr ''Missing service in VCAP_SERVICES''))"
| "find_service use_first name (service # rest) =
     (if use_first then read_service service
      else (case py_get service ''name'' PNone of
              Inl e \<Rightarrow> Inl e
            | Inr n \<Rightarrow> if n = name then read_service service
                       else find_service use_first name rest))"

fun service_except :: "error \<Rightarrow> error" where
  "service_except (Raised (KeyError k)) =
     CloudantException (PStr (''Invalid service: '' @ [CHR 0x27] @ k @ [CHR 0x27] @ '' missing''))"
| "service_except (Raised TypeError) =
     CloudantException (PStr ''Failed to decode VCAP_SERVICES service credentials'')"
| "service_except (Raised ValueError) =
     CloudantException (PStr ''Failed to decode VCAP_SERVICES JSON'')"
| "service_except e = e"

text \<open>
  \<^verbatim>\<open>CloudFoundryService.__init__\<close>. The argument \<open>name\<close> is \<open>None\<close> or the name of a service.
\<close>

definition CloudFoundryService_init ::
  "(string \<Rightarrow> pyexc + pyval) \<Rightarrow> pyval \<Rightarrow> string option \<Rightarrow> error + CloudFoundryService" where
  "CloudFoundryService_init loads vcap_services name =
     (case
        (case (if type_of vcap_services = T_dict then Inr vcap_services
               else json_loads loads vcap_services) of
           Inl e \<Rightarrow> Inl e
         | Inr services \<Rightarrow>
        (case py_get services ''cloudantNoSQLDB'' (PList []) of
           Inl e \<Rightarrow> Inl e
         | Inr cloudant_services \<Rightarrow>
        (case (if name = None
               then (case py_len cloudant_services of Inl e \<Rightarrow> Inl e | Inr n \<Rightarrow> Inr (n = 1))
               else Inr False) of
           Inl e \<Rightarrow> Inl e
         | Inr use_first \<Rightarrow>
        (case iter_items cloudant_services of
           Inl e \<Rightarrow> Inl (Raised e)
         | Inr services_list \<Rightarrow>
             find_service use_first (case name of None \<Rightarrow> PNone | Some n \<Rightarrow> PStr n)
               services_list)))) of
        Inl e \<Rightarrow> Inl (service_except e)
      | Inr service \<Rightarrow> Inr service)"

section \<open>The requests of the sessions\<close>

text \<open>
  The request that \<^verbatim>\<open>CookieSession.login\<close> sends and the request that
  \<^verbatim>\<open>IAMSession._get_access_token\<close> sends, with the time-out that
  \<^verbatim>\<open>ClientSession.request\<close> adds.
\<close>

definition login_request :: "CookieSession \<Rightarrow> request" where
  "login_request self = \<lparr>req_method = ''POST'', req_url = session_url self,
     req_kwargs = [(''timeout'', cookie_timeout self),
                   (''data'', PDict [(''name'', cookie_username self), (''password'', cookie_password self)])]\<rparr>"

definition token_request :: "IAMSession \<Rightarrow> request" where
  "token_request self = \<lparr>req_method = ''POST'', req_url = token_url self,
     req_kwargs = [(''timeout'', iam_timeout self),
              (''auth'', PTuple [PStr ''bx'', PStr ''bx'']),
              (''headers'', PDict [(''Accepts'', PStr ''application/json'')]),
              (''data'', PDict [
                 (''grant_type'', PStr ''urn:ibm:params:oauth:grant-type:apikey''),
                 (''response_type'', PStr ''cloud_iam''),
                 (''apikey'', api_key self)])]\<rparr>"

definition exchange_request :: "IAMSession \<Rightarrow> string \<Rightarrow> request" where
  "exchange_request self body = \<lparr>req_method = ''POST'', req_url = iam_session_url self,
     req_kwargs = [(''timeout'', iam_timeout self),
                   (''headers'', PDict [(''Content-Type'', PStr ''application/json'')]),
                   (''data'', PStr body)]\<rparr>"

section \<open>Example inputs\<close>

text \<open>
  A server that answers every request with status 401, and one that answers the first
  request with status 401 and every later one with status 200 and an access token.
\<close>

definition response_401 :: response where
  "response_401 = \<lparr>status_code = 401, json_body = Some (PDict []), set_cookies = []\<rparr>"

definition response_200 :: response where
  "response_200 =
     \<lparr>status_code = 200, json_body = Some (PDict [(''access_token'', PStr ''tok'')]),
      set_cookies = []\<rparr>"

definition server_401 :: server where
  "server_401 rqs = Inr response_401"

definition server_200 :: server where
  "server_200 rqs = Inr response_200"

definition server_first_401 :: server where
  "server_first_401 rqs = Inr (if length rqs = 1 then response_401 else response_200)"

definition response_400 :: response where
  "response_400 =
     \<lparr>status_code = 400, json_body = Some (PDict [(''errorMessage'', PStr ''bad key'')]),
      set_cookies = []\<rparr>"

definition server_400 :: server where
  "server_400 rqs = Inr response_400"

definition server_down :: server where
  "server_down rqs = Inl ConnectionError"

text \<open>
  Responses whose body is a JSON array, and an error page whose body is not JSON; a
  server that answers the third request with status 401 and every other one with status
  200 and an access token.
\<close>

definition response_200_array :: response where
  "response_200_array = \<lparr>status_code = 200, json_body = Some (PList []), set_cookies = []\<rparr>"

definition server_200_array :: server where
  "server_200_array rqs = Inr response_200_array"

definition response_500_array :: response where
  "response_500_array = \<lparr>status_code = 500, json_body = Some (PList []), set_cookies = []\<rparr>"

definition server_500_array :: server where
  "server_500_array rqs = Inr response_500_array"

definition response_500_page :: response where
  "response_500_page = \<lparr>status_code = 500, json_body = None, set_cookies = []\<rparr>"

definition server_500_page :: server where
  "server_500_page rqs = Inr response_500_page"

definition server_third_401 :: server where
  "server_third_401 rqs = Inr (if length rqs = 3 then response_401 else response_200)"

definition request_db :: request where
  "request_db =
     \<lparr>req_method = ''GET'', req_url = ''https://host/db'', req_kwargs = [(''timeout'', PNone)]\<rparr>"

definition world_empty :: world where
  "world_empty = \<lparr>trace = [], cookies = [], clock = 0\<rparr>"

definition world_with_cookie :: world where
  "world_with_cookie =
     \<lparr>trace = [], cookies = [\<lparr>cookie_name = ''IAMSession'', expires = None\<rparr>], clock = 0\<rparr>"

definition cookie_session_renewing :: CookieSession where
  "cookie_session_renewing =
     \<lparr>cookie_timeout = PNone, cookie_username = PStr ''user'', cookie_password = PStr ''pw'',
      auto_renew = True, session_url = ''https://host/_session''\<rparr>"

definition iam_session_renewing :: IAMSession where
  "iam_session_renewing =
     \<lparr>iam_timeout = PNone, api_key = PStr ''key'', iam_auto_renew = True,
      iam_session_url = ''https://host/_iam_session'',
      token_url = ''https://iam.bluemix.net/oidc/token''\<rparr>"

text \<open>
  A \<^verbatim>\<open>VCAP_SERVICES\<close> dictionary that lists two services, the first of them without a
  name, and a \<^verbatim>\<open>json.loads\<close> that knows one text.
\<close>

definition credentials_a :: pyval where
  "credentials_a =
     PDict [(''host'', PStr ''a.example''), (''username'', PStr ''ua''), (''password'', PStr ''pa'')]"

definition credentials_b :: pyval where
  "credentials_b =
     PDict [(''host'', PStr ''b.example''), (''username'', PStr ''ub''), (''password'', PStr ''pb''),
            (''port'', PInt 8443)]"

definition vcap_two_services :: pyval where
  "vcap_two_services =
     PDict [(''cloudantNoSQLDB'',
       PList [PDict [(''credentials'', credentials_a)],
              PDict [(''name'', PStr ''b''), (''credentials'', credentials_b)]])]"

definition vcap_one_service :: pyval where
  "vcap_one_service =
     PDict [(''cloudantNoSQLDB'',
       PList [PDict [(''name'', PStr ''b''), (''credentials'', credentials_b)]])]"

definition loads_example :: "string \<Rightarrow> pyexc + pyval" where
  "loads_example s = (if s = ''{}'' then Inr (PDict []) else Inl ValueError)"

section \<open>The tables, evaluated\<close>

lemmas compat_defs = LONGTYPE_def STRTYPE_def UNITYPE_def NONETYPE_def

lemma RESULT_ARG_TYPES_items:
  "RESULT_ARG_TYPES = [
     (''descending'', [T_bool]),
     (''endkey'', [T_int, T_int, T_str, T_Sequence]),
     (''endkey_docid'', [T_str]),
     (''group'', [T_bool]),
     (''group_level'', [T_int, T_int, T_NoneType]),
     (''include_docs'', [T_bool]),
     (''inclusive_end'', [T_bool]),
     (''key'', [T_int, T_int, T_str, T_Sequence]),
     (''keys'', [T_list]),
     (''limit'', [T_int, T_int, T_NoneType]),
     (''reduce'', [T_bool]),
     (''skip'', [T_int, T_int, T_NoneType]),
     (''stale'', [T_str]),
     (''startkey'', [T_int, T_int, T_str, T_Sequence]),
     (''startkey_docid'', [T_str])]"
  by (simp add: RESULT_ARG_TYPES_def dict_literal_def compat_defs)

lemma TYPE_CONVERTERS_items:
  "TYPE_CONVERTERS = [
     (T_str, conv_dumps),
     (T_Sequence, conv_dumps_list),
     (T_list, conv_dumps),
     (T_tuple, conv_dumps_list),
     (T_int, conv_id),
     (T_bool, conv_bool),
     (T_NoneType, conv_id)]"
  by (simp add: TYPE_CONVERTERS_def dict_literal_def compat_defs)

lemma COUCH_DB_UPDATES_ARG_TYPES_items:
  "COUCH_DB_UPDATES_ARG_TYPES =
     [(''feed'', [T_str]), (''heartbeat'', [T_bool]), (''timeout'', [T_int, T_int, T_NoneType])]"
  by (simp add: COUCH_DB_UPDATES_ARG_TYPES_def dict_literal_def compat_defs)

lemma DB_UPDATES_ARG_TYPES_items:
  "DB_UPDATES_ARG_TYPES =
     [(''descending'', [T_bool]), (''limit'', [T_int, T_int, T_NoneType]),
      (''since'', [T_int, T_int, T_str]), (''feed'', [T_str]),
      (''heartbeat'', [T_int, T_int, T_NoneType]), (''timeout'', [T_int, T_int, T_NoneType])]"
  by (simp add: DB_UPDATES_ARG_TYPES_def COUCH_DB_UPDATES_ARG_TYPES_items dict_literal_def
      compat_defs)

lemma psubset_by_element: "A \<subseteq> B \<Longrightarrow> x \<in> B \<Longrightarrow> x \<notin> A \<Longrightarrow> A \<subset> B"
  by blast

section \<open>The feed tables\<close>

lemma couchdb_feed_keys:
  "dict_keys (feed_arg_types ''CouchDB'') = {''feed'', ''heartbeat'', ''timeout''}"
  by (simp add: feed_arg_types_def COUCH_DB_UPDATES_ARG_TYPES_items dict_keys_def)

lemma cloudant_feed_keys:
  "dict_keys (feed_arg_types ''Cloudant'') =
     {''descending'', ''limit'', ''since'', ''feed'', ''heartbeat'', ''timeout''}"
  by (simp add: feed_arg_types_def DB_UPDATES_ARG_TYPES_items dict_keys_def)

text \<open>
  Claim C9. The keys of the table that \<^verbatim>\<open>feed_arg_types("CouchDB")\<close> returns are a proper
  subset of the keys of the table that \<^verbatim>\<open>feed_arg_types("Cloudant")\<close> returns: every key
  of the first is a key of the second, and the second has a key (\<^verbatim>\<open>since\<close>) that the
  first lacks.
\<close>

theorem feed_arg_types_cloudant_strict_superset:
  "dict_keys (feed_arg_types ''CouchDB'') \<subset> dict_keys (feed_arg_types ''Cloudant'')"
  unfolding couchdb_feed_keys cloudant_feed_keys
  by (rule psubset_by_element [where x = "''since''"]) simp_all

section \<open>Translation of one option\<close>

lemma translate_passthrough:
  "key \<in> set [''keys'', ''endkey_docid'', ''startkey_docid'', ''stale''] \<Longrightarrow> py_to_couch_translate key val = Inr [(key, val)]"
  by (simp only: py_to_couch_translate_def if_True)

lemma translate_none:
  "key \<notin> set [''keys'', ''endkey_docid'', ''startkey_docid'', ''stale''] \<Longrightarrow> py_to_couch_translate key PNone = Inr [(key, PNone)]"
  by (simp only: py_to_couch_translate_def if_False if_True refl)

lemma python_to_couch_single:
  "py_to_couch_validate key val = Inr () \<Longrightarrow> py_to_couch_translate key val = Inr [(key, v)] \<Longrightarrow>
   python_to_couch [(key, val)] = Inr [(key, v)]"
  by (simp add: python_to_couch_def python_to_couch_obj_def)



lemmas codec_eval =
  python_to_couch_def python_to_couch_obj_def py_to_couch_validate_def py_to_couch_translate_def
  validate_keys_def RESULT_ARG_TYPES_items TYPE_CONVERTERS_items isinstance_def issubclass_def
  conv_dumps_def conv_dumps_list_def conv_id_def conv_bool_def encode_basestring_ascii_def
  escape_char_def



text \<open>
  Claim C8. For the keys \<^verbatim>\<open>keys\<close>, \<^verbatim>\<open>endkey_docid\<close>, \<^verbatim>\<open>startkey_docid\<close> and \<^verbatim>\<open>stale\<close> the
  conversion returns the value as it is, whatever its type; for every other key the value
  \<^verbatim>\<open>None\<close> is returned as \<^verbatim>\<open>None\<close>. Both rules come before the dispatch on the runtime
  type, and they are what \<^verbatim>\<open>python_to_couch\<close> returns for a validated option.
\<close>

theorem translate_passthrough_and_null:
  "(key \<in> set [''keys'', ''endkey_docid'', ''startkey_docid'', ''stale''] \<longrightarrow>
      py_to_couch_translate key val = Inr [(key, val)] \<and>
      (py_to_couch_validate key val = Inr () \<longrightarrow> python_to_couch [(key, val)] = Inr [(key, val)])) \<and>
   (key \<notin> set [''keys'', ''endkey_docid'', ''startkey_docid'', ''stale''] \<longrightarrow>
      py_to_couch_translate key PNone = Inr [(key, PNone)] \<and>
      (py_to_couch_validate key PNone = Inr () \<longrightarrow>
         python_to_couch [(key, PNone)] = Inr [(key, PNone)]))"
  using translate_passthrough [of key val] translate_none [of key]
    python_to_couch_single [of key val val] python_to_couch_single [of key PNone PNone]
  by blast

theorem translate_passthrough_and_null_witness:
  "python_to_couch [(''stale'', PStr ''ok'')] = Inr [(''stale'', PStr ''ok'')] \<and>
   py_to_couch_translate ''keys'' (PList [PStr ''a'']) = Inr [(''keys'', PList [PStr ''a''])] \<and>
   python_to_couch [(''limit'', PNone)] = Inr [(''limit'', PNone)]"
  using translate_passthrough_and_null [of "''stale''" "PStr ''ok''"]
    translate_passthrough_and_null [of "''keys''" "PList [PStr ''a'']"]
    translate_passthrough_and_null [of "''limit''"]
  by (simp add: py_to_couch_validate_def RESULT_ARG_TYPES_items isinstance_def issubclass_def)

section \<open>Validation of one option\<close>

lemma declared_types_cases:
  "map_of RESULT_ARG_TYPES key = Some types \<Longrightarrow>
     types = [T_bool] \<or> types = [T_int, T_int, T_str, T_Sequence] \<or> types = [T_str] \<or>
     types = [T_int, T_int, T_NoneType] \<or> types = [T_list]"
  by (simp add: RESULT_ARG_TYPES_items split: if_splits)

lemma declared_types_keys: "map_of RESULT_ARG_TYPES ''keys'' = Some [T_list]"
  by (simp add: RESULT_ARG_TYPES_items)

lemma declared_types_key: "map_of RESULT_ARG_TYPES ''key'' = Some [T_int, LONGTYPE, STRTYPE, T_Sequence]"
  by (simp add: RESULT_ARG_TYPES_items compat_defs)

lemma declared_types_stale: "map_of RESULT_ARG_TYPES ''stale'' = Some [T_str]"
  by (simp add: RESULT_ARG_TYPES_items)

lemma validate_unknown:
  "map_of RESULT_ARG_TYPES key = None \<Longrightarrow> py_to_couch_validate key val = Inl (CloudantArgumentError 116 [AKey key])"
  by (simp add: py_to_couch_validate_def)

lemma validate_invalid_type:
  "map_of RESULT_ARG_TYPES key = Some types \<Longrightarrow>
   \<not> isinstance val types \<or> (type_of val = T_bool \<and> T_int \<in> set types) \<Longrightarrow>
   py_to_couch_validate key val = Inl (CloudantArgumentError 117 [AKey key, ATypes types])"
  by (simp add: py_to_couch_validate_def)

lemma validate_plain:
  "map_of RESULT_ARG_TYPES key = Some types \<Longrightarrow> key \<noteq> ''keys'' \<Longrightarrow> key \<noteq> ''stale'' \<Longrightarrow>
   isinstance val types \<Longrightarrow> \<not> (type_of val = T_bool \<and> T_int \<in> set types) \<Longrightarrow>
   py_to_couch_validate key val = Inr ()"
  by (simp add: py_to_couch_validate_def)

lemma validate_key_list_ok:
  "validate_key_list kt xs = Inr () \<longleftrightarrow> (\<forall>x\<in>set xs. isinstance x kt \<and> type_of x \<noteq> T_bool)"
  by (induction xs) auto

lemma validate_key_list_err:
  "validate_key_list kt xs \<noteq> Inr () \<Longrightarrow> validate_key_list kt xs = Inl (CloudantArgumentError 134 [ATypes kt])"
  by (induction xs) (auto split: if_splits)

lemma isinstance_list: "isinstance val [T_list] \<longleftrightarrow> (\<exists>xs. val = PList xs)"
  by (cases val) (simp_all add: isinstance_def issubclass_def)

lemma validate_keys_PList:
  "py_to_couch_validate ''keys'' (PList xs) = validate_key_list [T_int, LONGTYPE, STRTYPE, T_Sequence] xs"
  by (simp add: py_to_couch_validate_def declared_types_keys declared_types_key validate_keys_def isinstance_def issubclass_def split: sum.splits)

lemma validate_keys_not_list:
  "(\<And>xs. val \<noteq> PList xs) \<Longrightarrow> py_to_couch_validate ''keys'' val = Inl (CloudantArgumentError 117 [AKey ''keys'', ATypes [T_list]])"
  by (simp add: py_to_couch_validate_def declared_types_keys isinstance_list)

lemma isinstance_mono: "isinstance v [t] \<Longrightarrow> t \<in> set types \<Longrightarrow> isinstance v types"
  by (auto simp: isinstance_def list_ex_iff)

lemma validate_sample:
  assumes tab: "map_of RESULT_ARG_TYPES key = Some types" and t: "t \<in> set types"
  shows "\<exists>v. isinstance v [t] \<and> py_to_couch_validate key v = Inr ()"
proof -
  define v where "v = (case t of T_bool \<Rightarrow> PBool True | T_int \<Rightarrow> PInt 5 | T_str \<Rightarrow> PStr ''ok''
      | T_list \<Rightarrow> PList [] | T_NoneType \<Rightarrow> PNone | _ \<Rightarrow> PTuple [])"
  from declared_types_cases [OF tab] t
  have t_cases: "t = T_bool \<or> t = T_int \<or> t = T_str \<or> t = T_Sequence \<or> t = T_NoneType \<or> t = T_list"
    by auto
  then have inst: "isinstance v [t]"
    by (auto simp: v_def isinstance_def issubclass_def)
  then have inst': "isinstance v types"
    using t by (rule isinstance_mono)
  have nobool: "\<not> (type_of v = T_bool \<and> T_int \<in> set types)"
    using declared_types_cases [OF tab] t t_cases by (auto simp: v_def)
  have keys: "key = ''keys'' \<Longrightarrow> validate_keys v = Inr ()"
    using tab t by (auto simp: declared_types_keys v_def validate_keys_def declared_types_key)
  have stale: "key = ''stale'' \<Longrightarrow> v = PStr ''ok''"
    using tab t by (auto simp: declared_types_stale v_def)
  have "py_to_couch_validate key v = Inr ()"
    using tab inst' nobool keys stale by (auto simp: py_to_couch_validate_def)
  with inst show ?thesis by blast
qed

text \<open>
  Claim C3. A key that is not in \<^verbatim>\<open>RESULT_ARG_TYPES\<close> raises error 116 (unknown option).
  For a key of the table with its declared types: every declared type has a value of
  that type that the validation accepts; a value that is not an instance of a declared
  type, or that is a boolean where \<^verbatim>\<open>int\<close> is declared, raises error 117 (invalid type);
  and for the keys other than \<^verbatim>\<open>keys\<close> and \<^verbatim>\<open>stale\<close>, which have checks of their own,
  every other value is accepted.
\<close>

theorem validate_declared_types:
  "(map_of RESULT_ARG_TYPES key = None \<longrightarrow>
      py_to_couch_validate key val = Inl (CloudantArgumentError 116 [AKey key])) \<and>
   (\<forall>types. map_of RESULT_ARG_TYPES key = Some types \<longrightarrow>
      (\<forall>t\<in>set types. \<exists>v. isinstance v [t] \<and> py_to_couch_validate key v = Inr ()) \<and>
      (\<not> isinstance val types \<or> (type_of val = T_bool \<and> T_int \<in> set types) \<longrightarrow>
         py_to_couch_validate key val = Inl (CloudantArgumentError 117 [AKey key, ATypes types])) \<and>
      (key \<noteq> ''keys'' \<and> key \<noteq> ''stale'' \<and> isinstance val types \<and>
       \<not> (type_of val = T_bool \<and> T_int \<in> set types) \<longrightarrow>
         py_to_couch_validate key val = Inr ()))"
  using validate_unknown validate_sample validate_invalid_type validate_plain by blast

theorem validate_declared_types_witness:
  "py_to_couch_validate ''bogus_key'' (PInt 1) =
     Inl (CloudantArgumentError 116 [AKey ''bogus_key'']) \<and>
   py_to_couch_validate ''skip'' (PBool True) =
     Inl (CloudantArgumentError 117 [AKey ''skip'', ATypes [T_int, T_int, T_NoneType]]) \<and>
   py_to_couch_validate ''skip'' (PInt 5) = Inr () \<and>
   py_to_couch_validate ''include_docs'' (PInt 1) =
     Inl (CloudantArgumentError 117 [AKey ''include_docs'', ATypes [T_bool]])"
  using validate_declared_types [of "''bogus_key''" "PInt 1"]
    validate_declared_types [of "''skip''" "PBool True"]
    validate_declared_types [of "''skip''" "PInt 5"]
    validate_declared_types [of "''include_docs''" "PInt 1"]
  by (simp add: RESULT_ARG_TYPES_items isinstance_def issubclass_def)

text \<open>
  Claim C7. The declared types of the option \<^verbatim>\<open>key\<close> are \<^verbatim>\<open>int\<close>, \<^verbatim>\<open>LONGTYPE\<close>,
  \<^verbatim>\<open>STRTYPE\<close> and \<^verbatim>\<open>Sequence\<close>. The validation of \<^verbatim>\<open>keys\<close> succeeds exactly when the value
  is a list each of whose elements is an instance of these types and is not a boolean;
  a list with an element that is not raises error 134 (invalid key list item). (A value
  that is not a list, a tuple too, is not of the declared type \<^verbatim>\<open>list\<close> and raises
  error 117.)
\<close>

theorem validate_keys_option:
  "map_of RESULT_ARG_TYPES ''key'' = Some [T_int, LONGTYPE, STRTYPE, T_Sequence] \<and>
   (py_to_couch_validate ''keys'' val = Inr () \<longleftrightarrow>
      (\<exists>xs. val = PList xs \<and>
         (\<forall>x\<in>set xs. isinstance x [T_int, LONGTYPE, STRTYPE, T_Sequence] \<and> type_of x \<noteq> T_bool))) \<and>
   (\<forall>xs. val = PList xs \<and>
         (\<exists>x\<in>set xs. \<not> (isinstance x [T_int, LONGTYPE, STRTYPE, T_Sequence] \<and> type_of x \<noteq> T_bool)) \<longrightarrow>
      py_to_couch_validate ''keys'' val =
        Inl (CloudantArgumentError 134 [ATypes [T_int, LONGTYPE, STRTYPE, T_Sequence]]))"
proof (intro conjI allI impI)
  show "map_of RESULT_ARG_TYPES ''key'' = Some [T_int, LONGTYPE, STRTYPE, T_Sequence]"
    by (rule declared_types_key)
next
  show "py_to_couch_validate ''keys'' val = Inr () \<longleftrightarrow>
      (\<exists>xs. val = PList xs \<and>
         (\<forall>x\<in>set xs. isinstance x [T_int, LONGTYPE, STRTYPE, T_Sequence] \<and> type_of x \<noteq> T_bool))"
  proof (cases "\<exists>xs. val = PList xs")
    case True
    then show ?thesis by (auto simp: validate_keys_PList validate_key_list_ok)
  next
    case False
    then have "py_to_couch_validate ''keys'' val =
        Inl (CloudantArgumentError 117 [AKey ''keys'', ATypes [T_list]])"
      by (intro validate_keys_not_list) blast
    with False show ?thesis by simp
  qed
next
  fix xs
  assume a: "val = PList xs \<and>
         (\<exists>x\<in>set xs. \<not> (isinstance x [T_int, LONGTYPE, STRTYPE, T_Sequence] \<and> type_of x \<noteq> T_bool))"
  then have "validate_key_list [T_int, LONGTYPE, STRTYPE, T_Sequence] xs \<noteq> Inr ()"
    by (simp add: validate_key_list_ok)
  then show "py_to_couch_validate ''keys'' val =
        Inl (CloudantArgumentError 134 [ATypes [T_int, LONGTYPE, STRTYPE, T_Sequence]])"
    using a by (simp add: validate_keys_PList validate_key_list_err)
qed

theorem validate_keys_option_witness:
  "py_to_couch_validate ''keys'' (PList [PInt 1, PStr ''a'', PList [PInt 2]]) = Inr () \<and>
   py_to_couch_validate ''keys'' (PList [PInt 1, PBool True]) =
     Inl (CloudantArgumentError 134 [ATypes [T_int, T_int, T_str, T_Sequence]]) \<and>
   py_to_couch_validate ''keys'' (PList [PNone]) =
     Inl (CloudantArgumentError 134 [ATypes [T_int, T_int, T_str, T_Sequence]])"
  using validate_keys_option [of "PList [PInt 1, PStr ''a'', PList [PInt 2]]"]
    validate_keys_option [of "PList [PInt 1, PBool True]"]
    validate_keys_option [of "PList [PNone]"]
  by (simp add: isinstance_def issubclass_def compat_defs)

section \<open>Translation of a dictionary of options\<close>

lemma dict_keys_setitem: "dict_keys (dict_setitem d k v) = insert k (dict_keys d)"
  by (induction d k v rule: dict_setitem.induct) (auto simp: dict_keys_def)

lemma dict_keys_update: "dict_keys (dict_update d e) = dict_keys d \<union> dict_keys e"
proof (induction d e rule: dict_update.induct)
  case (1 d)
  then show ?case by (simp add: dict_keys_def)
next
  case (2 d k v e)
  then show ?case by (simp add: dict_keys_setitem) (auto simp: dict_keys_def)
qed

lemma translate_single:
  "py_to_couch_translate key val = Inr d \<Longrightarrow> \<exists>v. d = [(key, v)]"
  unfolding py_to_couch_translate_def
  by (auto split: if_splits sum.splits)

lemma translate_keys: "py_to_couch_translate key val = Inr d \<Longrightarrow> dict_keys d = {key}"
  by (drule translate_single) (auto simp: dict_keys_def)

lemma translate_items_store:
  "translation < length h \<Longrightarrow> translate_items items translation h = (r, h') \<Longrightarrow>
     length h' = length h \<and> (\<forall>i. i \<noteq> translation \<longrightarrow> h' ! i = h ! i) \<and>
     (r = Inr () \<longrightarrow> dict_keys (h' ! translation) = dict_keys (h ! translation) \<union> dict_keys items)"
proof (induction items translation h rule: translate_items.induct)
  case (1 translation h)
  then show ?case by (simp add: dict_keys_def)
next
  case (2 key val rest translation h)
  show ?case
  proof (cases "py_to_couch_validate key val")
    case (Inl e)
    with "2.prems" show ?thesis by auto
  next
    case (Inr u)
    note valid = this
    show ?thesis
    proof (cases "py_to_couch_translate key val")
      case (Inl e)
      with valid "2.prems" show ?thesis by auto
    next
      case (Inr d)
      let ?h1 = "h[translation := dict_update (h ! translation) d]"
      from valid Inr "2.prems" have run: "translate_items rest translation ?h1 = (r, h')"
        by simp
      have len: "translation < length ?h1" using "2.prems" by simp
      from "2.IH" [OF valid Inr len run]
      have ih: "length h' = length ?h1" "\<forall>i. i \<noteq> translation \<longrightarrow> h' ! i = ?h1 ! i"
        "r = Inr () \<longrightarrow> dict_keys (h' ! translation) = dict_keys (?h1 ! translation) \<union> dict_keys rest"
        by blast+
      have k: "dict_keys (?h1 ! translation) = insert key (dict_keys (h ! translation))"
        using "2.prems"(1) translate_keys [OF Inr] by (simp add: dict_keys_update)
      have "dict_keys ((key, val) # rest) = insert key (dict_keys rest)"
        by (simp add: dict_keys_def)
      with ih k show ?thesis by auto
    qed
  qed
qed

lemma translate_items_succeeds:
  "\<forall>(key, val)\<in>set items. py_to_couch_validate key val = Inr () \<and> (\<exists>d. py_to_couch_translate key val = Inr d) \<Longrightarrow>
   \<exists>h'. translate_items items translation h = (Inr (), h')"
  by (induction items translation h rule: translate_items.induct) auto

lemma python_to_couch_obj_store:
  assumes "options < length h" "python_to_couch_obj h options = (r, h')"
  shows "take (length h) h' = h \<and> h' ! options = h ! options \<and>
     (\<forall>translation. r = Inr translation \<longrightarrow> translation = length h \<and> translation \<noteq> options \<and>
         dict_keys (h' ! translation) = dict_keys (h ! options))"
proof -
  let ?h1 = "h @ [[]]"
  obtain r0 where run: "translate_items (h ! options) (length h) ?h1 = (r0, h')"
    and r: "r = (case r0 of Inl e \<Rightarrow> Inl e | Inr u \<Rightarrow> Inr (length h))"
    using assms by (auto simp: python_to_couch_obj_def Let_def nth_append split: prod.splits sum.splits)
  have "length h < length ?h1" by simp
  from translate_items_store [OF this run]
  have st: "length h' = length ?h1" "\<forall>i. i \<noteq> length h \<longrightarrow> h' ! i = ?h1 ! i"
    "r0 = Inr () \<longrightarrow> dict_keys (h' ! length h) = dict_keys (?h1 ! length h) \<union> dict_keys (h ! options)"
    by blast+
  have "take (length h) h' = h"
    using st(1,2) by (intro nth_equalityI) (auto simp: nth_append)
  moreover have "h' ! options = h ! options"
    using st(2) assms(1) by (auto simp: nth_append)
  moreover have "\<forall>translation. r = Inr translation \<longrightarrow> translation = length h \<and> translation \<noteq> options \<and>
         dict_keys (h' ! translation) = dict_keys (h ! options)"
    using st(3) r assms(1) by (auto simp: dict_keys_def split: sum.splits)
  ultimately show ?thesis by blast
qed

lemma python_to_couch_keys:
  assumes "python_to_couch options = Inr translation"
  shows "dict_keys translation = dict_keys options"
proof -
  obtain t h' where run: "python_to_couch_obj [options] 0 = (Inr t, h')" and tr: "translation = h' ! t"
    using assms by (auto simp: python_to_couch_def split: prod.splits sum.splits)
  from python_to_couch_obj_store [OF _ run] tr show ?thesis by auto
qed

lemma python_to_couch_succeeds:
  assumes "\<forall>(key, val)\<in>set options. py_to_couch_validate key val = Inr () \<and> (\<exists>d. py_to_couch_translate key val = Inr d)"
  shows "\<exists>translation. python_to_couch options = Inr translation"
proof -
  from translate_items_succeeds [OF assms, of 1 "[options, []]"]
  obtain h' where "translate_items options 1 [options, []] = (Inr (), h')" by blast
  then show ?thesis by (simp add: python_to_couch_def python_to_couch_obj_def)
qed

lemma python_to_couch_empty: "python_to_couch [] = Inr []"
  by (simp add: python_to_couch_def python_to_couch_obj_def)

text \<open>
  Claim C10. When every item of \<open>options\<close> passes the validation and the conversion,
  \<^verbatim>\<open>python_to_couch\<close> returns a dictionary with exactly the keys of \<open>options\<close>; the empty
  dictionary is translated to the empty dictionary. On the store: the call allocates a
  new dictionary for its result and leaves every dictionary that existed before, the
  argument among them, as it was, whether it returns or raises.
\<close>

theorem python_to_couch_preserves_keys:
  "((\<forall>(key, val)\<in>set options.
        py_to_couch_validate key val = Inr () \<and> (\<exists>d. py_to_couch_translate key val = Inr d)) \<longrightarrow>
      (\<exists>translation. python_to_couch options = Inr translation \<and>
         dict_keys translation = dict_keys options)) \<and>
   python_to_couch [] = Inr [] \<and>
   (obj < length h \<and> python_to_couch_obj h obj = (r, h') \<longrightarrow>
      take (length h) h' = h \<and> h' ! obj = h ! obj \<and>
      (\<forall>translation. r = Inr translation \<longrightarrow>
         translation = length h \<and> translation \<noteq> obj \<and>
         dict_keys (h' ! translation) = dict_keys (h ! obj)))"
proof (intro conjI impI)
  assume "\<forall>(key, val)\<in>set options.
        py_to_couch_validate key val = Inr () \<and> (\<exists>d. py_to_couch_translate key val = Inr d)"
  from python_to_couch_succeeds [OF this]
  obtain translation where "python_to_couch options = Inr translation" by blast
  with python_to_couch_keys [OF this]
  show "\<exists>translation. python_to_couch options = Inr translation \<and>
         dict_keys translation = dict_keys options"
    by blast
next
  show "python_to_couch [] = Inr []" by (rule python_to_couch_empty)
next
  assume "obj < length h \<and> python_to_couch_obj h obj = (r, h')"
  then have "obj < length h" "python_to_couch_obj h obj = (r, h')" by blast+
  from python_to_couch_obj_store [OF this]
  show "take (length h) h' = h" "h' ! obj = h ! obj"
    "\<forall>translation. r = Inr translation \<longrightarrow>
         translation = length h \<and> translation \<noteq> obj \<and>
         dict_keys (h' ! translation) = dict_keys (h ! obj)"
    by blast+
qed

theorem python_to_couch_preserves_keys_witness:
  "(\<exists>translation.
      python_to_couch [(''limit'', PInt 5), (''stale'', PStr ''ok''), (''descending'', PBool True)] =
        Inr translation \<and>
      dict_keys translation = {''limit'', ''stale'', ''descending''}) \<and>
   python_to_couch_obj [[(''limit'', PInt 5)]] 0 =
     (Inr 1, [[(''limit'', PInt 5)], [(''limit'', PInt 5)]])"
  using python_to_couch_preserves_keys
    [of "[(''limit'', PInt 5), (''stale'', PStr ''ok''), (''descending'', PBool True)]"
      0 "[[(''limit'', PInt 5)]]" "Inr 1" "[[(''limit'', PInt 5)], [(''limit'', PInt 5)]]"]
  by (simp add: codec_eval dict_keys_def insert_commute)

section \<open>\<^verbatim>\<open>CookieSession.request\<close>\<close>

lemma sent_append: "sent (es @ fs) = sent es @ sent fs"
  by (induction es rule: sent.induct) simp_all

lemma ClientSession_request_sends:
  assumes "''timeout'' \<notin> dict_keys kwargs"
  shows "ClientSession_request srv t method url kwargs w =
    (let rq = \<lparr>req_method = method, req_url = url, req_kwargs = (''timeout'', t) # kwargs\<rparr> in
     case srv (sent (trace w) @ [rq]) of
       Inl e \<Rightarrow> (Inl (Raised (RequestException e)), w\<lparr>trace := trace w @ [Send rq]\<rparr>)
     | Inr resp \<Rightarrow> (Inr resp, w\<lparr>trace := trace w @ [Send rq],
                                 cookies := store_cookies (set_cookies resp) (cookies w)\<rparr>))"
  using assms
  by (simp add: ClientSession_request_def Session_request_def Let_def sent_append split: sum.splits)

lemma CookieSession_login_sends:
  "CookieSession_login srv self w =
     (case srv (sent (trace w) @ [login_request self]) of
        Inl e \<Rightarrow> (Inl (Raised (RequestException e)), w\<lparr>trace := trace w @ [Login, Send (login_request self)]\<rparr>)
      | Inr resp \<Rightarrow>
          (raise_for_status resp,
           w\<lparr>trace := trace w @ [Login, Send (login_request self)],
             cookies := store_cookies (set_cookies resp) (cookies w)\<rparr>))"
  by (simp add: CookieSession_login_def ClientSession_request_sends dict_keys_def Let_def sent_append
      login_request_def split: sum.splits)

lemma is_expired_401: "status_code resp = 401 \<Longrightarrow> is_expired resp = Inr True"
  by (simp add: is_expired_def)

lemma is_expired_403:
  "status_code resp = 403 \<Longrightarrow> json_body resp = Some (PDict d) \<Longrightarrow>
   map_of d ''error'' = Some (PStr ''credentials_expired'') \<Longrightarrow> is_expired resp = Inr True"
  by (simp add: is_expired_def response_json_def)

lemma CookieSession_request_no_renew:
  assumes "''timeout'' \<notin> dict_keys kwargs" "\<not> auto_renew self"
    and "srv (sent (trace w) @ [\<lparr>req_method = meth, req_url = url,
            req_kwargs = (''timeout'', cookie_timeout self) # kwargs\<rparr>]) = Inr resp"
  shows "CookieSession_request srv self meth url kwargs w =
     (Inr resp, w\<lparr>trace := trace w @ [Send \<lparr>req_method = meth, req_url = url,
            req_kwargs = (''timeout'', cookie_timeout self) # kwargs\<rparr>],
         cookies := store_cookies (set_cookies resp) (cookies w)\<rparr>)"
  using assms by (simp add: CookieSession_request_def ClientSession_request_sends Let_def)

lemma CookieSession_request_renew:
  assumes kw: "''timeout'' \<notin> dict_keys kwargs" and ar: "auto_renew self"
    and rq: "rq = \<lparr>req_method = meth, req_url = url,
            req_kwargs = (''timeout'', cookie_timeout self) # kwargs\<rparr>"
    and first: "srv (sent (trace w) @ [rq]) = Inr resp"
    and ex: "is_expired resp = Inr True"
  shows "CookieSession_request srv self meth url kwargs w =
     (case CookieSession_login srv self
             (w\<lparr>trace := trace w @ [Send rq],
                cookies := store_cookies (set_cookies resp) (cookies w)\<rparr>) of
        (Inl e, w2) \<Rightarrow> (Inl e, w2)
      | (Inr u, w2) \<Rightarrow> ClientSession_request srv (cookie_timeout self) meth url kwargs w2)"
  using first ar ex unfolding rq
  by (simp add: CookieSession_request_def ClientSession_request_sends [OF kw] Let_def)

text \<open>
  Claim C1, as amended. Let the first response of a request through
  \<^verbatim>\<open>CookieSession.request\<close> be \<open>resp\<close> (the caller passes no \<^verbatim>\<open>timeout\<close> of its own, which
  would raise \<^verbatim>\<open>TypeError\<close> before anything is sent). With \<^verbatim>\<open>auto_renew\<close> disabled, \<open>resp\<close> is
  returned and nothing else is sent. With \<^verbatim>\<open>auto_renew\<close> enabled and \<open>resp\<close> of status 401,
  or of status 403 with a JSON object whose \<^verbatim>\<open>error\<close> is \<^verbatim>\<open>credentials_expired\<close>,
  \<^verbatim>\<open>login\<close> is called once. When the login succeeds, the same request is sent once more
  and its outcome is returned whatever it is: the trace ends there. When the login
  fails, because the transport fails or the login response has a status from 400 to 599,
  its exception is raised and the request is not sent again.
\<close>

theorem cookie_request_renews_once:
  assumes kw: "''timeout'' \<notin> dict_keys kwargs"
    and rq: "rq = \<lparr>req_method = meth, req_url = url,
            req_kwargs = (''timeout'', cookie_timeout self) # kwargs\<rparr>"
    and first: "srv (sent (trace w) @ [rq]) = Inr resp"
    and res: "res = CookieSession_request srv self meth url kwargs w"
  shows "(\<not> auto_renew self \<longrightarrow> fst res = Inr resp \<and> trace (snd res) = trace w @ [Send rq]) \<and>
    (auto_renew self \<and>
     (status_code resp = 401 \<or>
      (status_code resp = 403 \<and>
       (\<exists>d. json_body resp = Some (PDict d) \<and>
            map_of d ''error'' = Some (PStr ''credentials_expired'')))) \<longrightarrow>
     (case srv (sent (trace w) @ [rq, login_request self]) of
        Inl e \<Rightarrow>
          fst res = Inl (Raised (RequestException e)) \<and>
          trace (snd res) = trace w @ [Send rq, Login, Send (login_request self)]
      | Inr login_resp \<Rightarrow>
          if 400 \<le> status_code login_resp \<and> status_code login_resp < 600
          then fst res = Inl (Raised (RequestException HTTPError)) \<and>
               trace (snd res) = trace w @ [Send rq, Login, Send (login_request self)]
          else fst res =
                 (case srv (sent (trace w) @ [rq, login_request self, rq]) of
                    Inl e \<Rightarrow> Inl (Raised (RequestException e))
                  | Inr resp2 \<Rightarrow> Inr resp2) \<and>
               trace (snd res) =
                 trace w @ [Send rq, Login, Send (login_request self), Send rq]))"
proof (rule conjI; rule impI)
  assume "\<not> auto_renew self"
  with kw first show "fst res = Inr resp \<and> trace (snd res) = trace w @ [Send rq]"
    unfolding res rq
    by (simp add: CookieSession_request_def ClientSession_request_sends Let_def)
next
  assume a: "auto_renew self \<and>
     (status_code resp = 401 \<or>
      (status_code resp = 403 \<and>
       (\<exists>d. json_body resp = Some (PDict d) \<and>
            map_of d ''error'' = Some (PStr ''credentials_expired''))))"
  then have ex: "is_expired resp = Inr True"
    using is_expired_401 is_expired_403 by blast
  from a have ar: "auto_renew self" by blast
  note run = CookieSession_request_renew
    [where srv = srv and self = self and rq = rq and resp = resp and w = w and kwargs = kwargs
       and meth = meth and url = url, OF kw ar rq first ex]
  show "case srv (sent (trace w) @ [rq, login_request self]) of
        Inl e \<Rightarrow>
          fst res = Inl (Raised (RequestException e)) \<and>
          trace (snd res) = trace w @ [Send rq, Login, Send (login_request self)]
      | Inr login_resp \<Rightarrow>
          if 400 \<le> status_code login_resp \<and> status_code login_resp < 600
          then fst res = Inl (Raised (RequestException HTTPError)) \<and>
               trace (snd res) = trace w @ [Send rq, Login, Send (login_request self)]
          else fst res =
                 (case srv (sent (trace w) @ [rq, login_request self, rq]) of
                    Inl e \<Rightarrow> Inl (Raised (RequestException e))
                  | Inr resp2 \<Rightarrow> Inr resp2) \<and>
               trace (snd res) =
                 trace w @ [Send rq, Login, Send (login_request self), Send rq]"
    unfolding res run
    by (simp add: CookieSession_login_sends ClientSession_request_sends [OF kw] sent_append
        raise_for_status_def Let_def rq [symmetric] split: sum.splits)
qed

theorem cookie_request_renews_once_witness:
  "fst (CookieSession_request server_first_401 cookie_session_renewing ''GET'' ''https://host/db''
          [] world_empty) = Inr response_200 \<and>
   trace (snd (CookieSession_request server_first_401 cookie_session_renewing ''GET''
          ''https://host/db'' [] world_empty)) =
     [Send request_db, Login, Send (login_request cookie_session_renewing), Send request_db]"
  using cookie_request_renews_once
    [where kwargs = "[]" and rq = request_db and meth = "''GET''" and url = "''https://host/db''"
       and self = cookie_session_renewing and srv = server_first_401 and w = world_empty
       and resp = response_401
       and res = "CookieSession_request server_first_401 cookie_session_renewing ''GET''
          ''https://host/db'' [] world_empty"]
  by (simp add: dict_keys_def request_db_def cookie_session_renewing_def server_first_401_def
      world_empty_def response_401_def response_200_def)

text \<open>
  Claim C1 as stated fails when the login fails: the server answers every request with
  status 401, \<^verbatim>\<open>auto_renew\<close> is enabled, and the call raises the \<^verbatim>\<open>HTTPError\<close> of the
  login; the request was sent once, not twice, and no response is returned.
\<close>

theorem cookie_request_login_failure_counterexample:
  "auto_renew cookie_session_renewing \<and>
   server_401 (sent (trace world_empty) @ [request_db]) = Inr response_401 \<and>
   status_code response_401 = 401 \<and>
   CookieSession_request server_401 cookie_session_renewing ''GET'' ''https://host/db'' []
       world_empty =
     (Inl (Raised (RequestException HTTPError)),
      \<lparr>trace = [Send request_db, Login, Send (login_request cookie_session_renewing)],
       cookies = [], clock = 0\<rparr>)"
  by (simp add: CookieSession_request_def CookieSession_login_sends ClientSession_request_sends
      dict_keys_def is_expired_def raise_for_status_def store_cookies_def request_db_def
      cookie_session_renewing_def server_401_def world_empty_def response_401_def Let_def)

section \<open>\<^verbatim>\<open>IAMSession._get_access_token\<close>\<close>

lemma token_except_not_request_exception: "token_except err e \<noteq> Raised (RequestException x)"
  by (cases "(err, e)" rule: token_except.cases) simp_all

lemma token_request_sends:
  "ClientSession_request srv (iam_timeout self) ''POST'' (token_url self)
             [(''auth'', PTuple [PStr ''bx'', PStr ''bx'']),
              (''headers'', PDict [(''Accepts'', PStr ''application/json'')]),
              (''data'', PDict [
                 (''grant_type'', PStr ''urn:ibm:params:oauth:grant-type:apikey''),
                 (''response_type'', PStr ''cloud_iam''),
                 (''apikey'', api_key self)])] w =
   (case srv (sent (trace w) @ [token_request self]) of
       Inl e \<Rightarrow> (Inl (Raised (RequestException e)), w\<lparr>trace := trace w @ [Send (token_request self)]\<rparr>)
     | Inr resp \<Rightarrow> (Inr resp, w\<lparr>trace := trace w @ [Send (token_request self)],
                                 cookies := store_cookies (set_cookies resp) (cookies w)\<rparr>))"
  unfolding token_request_def
  by (simp add: ClientSession_request_sends dict_keys_def Let_def)

lemma get_access_token_no_request_exception:
  "fst (IAMSession_get_access_token srv self w) \<noteq> Inl (Raised (RequestException x))"
  unfolding IAMSession_get_access_token_def token_request_sends Let_def
  by (auto simp: token_except_not_request_exception split: sum.splits)

lemma get_access_token_trace:
  "trace (snd (IAMSession_get_access_token srv self w)) = trace w @ [Send (token_request self)]"
  unfolding IAMSession_get_access_token_def token_request_sends Let_def
  by (auto split: sum.splits)

lemma get_access_token_outcome:
  "IAMSession_get_access_token srv self w =
     (case srv (sent (trace w) @ [token_request self]) of
        Inl e \<Rightarrow>
          (Inl (CloudantException (PStr ''Failed to contact IAM token service'')),
           w\<lparr>trace := trace w @ [Send (token_request self)]\<rparr>)
      | Inr resp \<Rightarrow>
          ((case json_body resp of
              None \<Rightarrow> Inl (CloudantException (PStr ''Failed to contact IAM token service''))
            | Some body \<Rightarrow>
                (case body of
                   PDict d \<Rightarrow>
                     if 400 \<le> status_code resp \<and> status_code resp < 600
                     then Inl (CloudantException
                            (case map_of d ''errorMessage'' of
                               None \<Rightarrow> PStr ''Failed to contact IAM token service''
                             | Some m \<Rightarrow> m))
                     else (case map_of d ''access_token'' of
                             None \<Rightarrow>
                               Inl (CloudantException
                                      (PStr ''Invalid response from IAM token service''))
                           | Some access_token \<Rightarrow> Inr access_token)
                 | _ \<Rightarrow> Inl (Raised AttributeError))),
           w\<lparr>trace := trace w @ [Send (token_request self)],
             cookies := store_cookies (set_cookies resp) (cookies w)\<rparr>))"
  unfolding IAMSession_get_access_token_def token_request_sends Let_def
  by (auto simp: response_json_def raise_for_status_def
      split: sum.splits option.splits pyval.splits)

text \<open>
  Claim C5, as amended. \<^verbatim>\<open>_get_access_token\<close> sends the one token request, and the
  answer determines the outcome. A failure of the transport raises \<^verbatim>\<open>CloudantException\<close>
  with the generic message, and so does a response whose body is not JSON, whatever its
  status. For a body that is a JSON object: a status from 400 to 599 raises
  \<^verbatim>\<open>CloudantException\<close> with the \<^verbatim>\<open>errorMessage\<close> of the body, or the generic message
  when the body has none; any other status returns the \<^verbatim>\<open>access_token\<close> of the body, and
  raises \<^verbatim>\<open>CloudantException\<close> for an invalid response when the body has none. A JSON
  body that is not an object raises \<^verbatim>\<open>AttributeError\<close>, which no \<^verbatim>\<open>except\<close> clause
  catches. No call raises an exception of the \<^verbatim>\<open>requests\<close> library
  (a \<^verbatim>\<open>RequestException\<close>).
\<close>

theorem get_access_token_outcomes:
  "IAMSession_get_access_token srv self w =
     (case srv (sent (trace w) @ [token_request self]) of
        Inl e \<Rightarrow>
          (Inl (CloudantException (PStr ''Failed to contact IAM token service'')),
           w\<lparr>trace := trace w @ [Send (token_request self)]\<rparr>)
      | Inr resp \<Rightarrow>
          ((case json_body resp of
              None \<Rightarrow> Inl (CloudantException (PStr ''Failed to contact IAM token service''))
            | Some body \<Rightarrow>
                (case body of
                   PDict d \<Rightarrow>
                     if 400 \<le> status_code resp \<and> status_code resp < 600
                     then Inl (CloudantException
                            (case map_of d ''errorMessage'' of
                               None \<Rightarrow> PStr ''Failed to contact IAM token service''
                             | Some m \<Rightarrow> m))
                     else (case map_of d ''access_token'' of
                             None \<Rightarrow>
                               Inl (CloudantException
                                      (PStr ''Invalid response from IAM token service''))
                           | Some access_token \<Rightarrow> Inr access_token)
                 | _ \<Rightarrow> Inl (Raised AttributeError))),
           w\<lparr>trace := trace w @ [Send (token_request self)],
             cookies := store_cookies (set_cookies resp) (cookies w)\<rparr>)) \<and>
   (\<forall>x. fst (IAMSession_get_access_token srv self w) \<noteq> Inl (Raised (RequestException x)))"
  by (rule conjI, rule get_access_token_outcome, rule allI,
      rule get_access_token_no_request_exception)

theorem get_access_token_outcomes_witness:
  "fst (IAMSession_get_access_token server_down iam_session_renewing world_empty) =
     Inl (CloudantException (PStr ''Failed to contact IAM token service'')) \<and>
   fst (IAMSession_get_access_token server_400 iam_session_renewing world_empty) =
     Inl (CloudantException (PStr ''bad key'')) \<and>
   fst (IAMSession_get_access_token server_401 iam_session_renewing world_empty) =
     Inl (CloudantException (PStr ''Failed to contact IAM token service'')) \<and>
   fst (IAMSession_get_access_token server_500_page iam_session_renewing world_empty) =
     Inl (CloudantException (PStr ''Failed to contact IAM token service'')) \<and>
   fst (IAMSession_get_access_token server_200 iam_session_renewing world_empty) =
     Inr (PStr ''tok'')"
  using get_access_token_outcomes [of server_down iam_session_renewing world_empty]
    get_access_token_outcomes [of server_400 iam_session_renewing world_empty]
    get_access_token_outcomes [of server_401 iam_session_renewing world_empty]
    get_access_token_outcomes [of server_500_page iam_session_renewing world_empty]
    get_access_token_outcomes [of server_200 iam_session_renewing world_empty]
  by (simp add: server_down_def server_400_def server_401_def server_200_def server_500_page_def
      response_400_def response_401_def response_200_def response_500_page_def)

text \<open>
  Claim C5 as stated fails for a body that is JSON but not an object. The server answers
  the token request with status 200 and the body \<^verbatim>\<open>[]\<close>, which lacks \<^verbatim>\<open>access_token\<close>;
  \<^verbatim>\<open>resp.json().get\<close> raises \<^verbatim>\<open>AttributeError\<close>, neither \<^verbatim>\<open>except\<close> clause catches it, and
  the call fails with \<^verbatim>\<open>AttributeError\<close>, not with the \<^verbatim>\<open>CloudantException\<close> for an
  invalid response. The same body with status 500 fails in the same way, not with the
  \<^verbatim>\<open>CloudantException\<close> of the token service.
\<close>

theorem get_access_token_array_body_counterexample:
  "server_200_array (sent (trace world_empty) @ [token_request iam_session_renewing]) =
     Inr response_200_array \<and>
   status_code response_200_array = 200 \<and>
   json_body response_200_array = Some (PList []) \<and>
   fst (IAMSession_get_access_token server_200_array iam_session_renewing world_empty) =
     Inl (Raised AttributeError) \<and>
   status_code response_500_array = 500 \<and>
   fst (IAMSession_get_access_token server_500_array iam_session_renewing world_empty) =
     Inl (Raised AttributeError)"
  by (simp add: get_access_token_outcome server_200_array_def response_200_array_def
      server_500_array_def response_500_array_def)

section \<open>\<^verbatim>\<open>IAMSession.request\<close>\<close>

lemma exchange_request_sends:
  "ClientSession_request srv (iam_timeout self) ''POST'' (iam_session_url self)
       [(''headers'', PDict [(''Content-Type'', PStr ''application/json'')]),
        (''data'', PStr body)] w =
   (case srv (sent (trace w) @ [exchange_request self body]) of
       Inl e \<Rightarrow> (Inl (Raised (RequestException e)),
                 w\<lparr>trace := trace w @ [Send (exchange_request self body)]\<rparr>)
     | Inr resp \<Rightarrow> (Inr resp, w\<lparr>trace := trace w @ [Send (exchange_request self body)],
                                 cookies := store_cookies (set_cookies resp) (cookies w)\<rparr>))"
  unfolding exchange_request_def
  by (simp add: ClientSession_request_sends dict_keys_def Let_def)

lemma ClientSession_request_trace:
  "''timeout'' \<notin> dict_keys kwargs \<Longrightarrow>
   trace (snd (ClientSession_request srv t meth url kwargs w)) =
     trace w @ [Send \<lparr>req_method = meth, req_url = url, req_kwargs = (''timeout'', t) # kwargs\<rparr>]"
  by (simp add: ClientSession_request_sends Let_def split: sum.splits)

lemma IAMSession_login_trace:
  "\<exists>tr. trace (snd (IAMSession_login srv self w)) =
          trace w @ Login # Send (token_request self) # tr \<and> Login \<notin> set tr \<and> length tr \<le> 1"
proof -
  let ?w0 = "w\<lparr>trace := trace w @ [Login]\<rparr>"
  obtain r w1 where tok: "IAMSession_get_access_token srv self ?w0 = (r, w1)"
    by (cases "IAMSession_get_access_token srv self ?w0")
  from get_access_token_trace [of srv self ?w0] tok
  have t1: "trace w1 = trace w @ [Login, Send (token_request self)]" by simp
  show ?thesis
    unfolding IAMSession_login_def tok
    by (auto simp: t1 exchange_request_sends split: sum.splits prod.splits)
qed

lemma IAMSession_login_count:
  "count_list (trace (snd (IAMSession_login srv self w))) Login = Suc (count_list (trace w) Login)"
proof -
  from IAMSession_login_trace [of srv self w]
  obtain tr where "trace (snd (IAMSession_login srv self w)) =
          trace w @ Login # Send (token_request self) # tr" "Login \<notin> set tr" by blast
  then show ?thesis by (simp add: count_list_0_iff)
qed

lemma IAMSession_request_no_renew:
  "\<not> iam_auto_renew self \<Longrightarrow>
   IAMSession_request srv self meth url kwargs w =
     ClientSession_request srv (iam_timeout self) meth url kwargs
       (w\<lparr>cookies := clear_expired_cookies (clock w) (cookies w)\<rparr>)"
  by (simp add: IAMSession_request_def Let_def split: prod.splits sum.splits)

lemma IAMSession_request_proactive:
  assumes "iam_auto_renew self"
    and "''IAMSession'' \<notin> set (map cookie_name (clear_expired_cookies (clock w) (cookies w)))"
  shows "IAMSession_request srv self meth url kwargs w =
     (case IAMSession_login srv self (w\<lparr>cookies := clear_expired_cookies (clock w) (cookies w)\<rparr>) of
        (Inl e, w2) \<Rightarrow> (Inl e, w2)
      | (Inr u, w2) \<Rightarrow>
          (case ClientSession_request srv (iam_timeout self) meth url kwargs w2 of
             (Inl e, w3) \<Rightarrow> (Inl e, w3)
           | (Inr resp, w3) \<Rightarrow>
               if status_code resp = 401
               then (case IAMSession_login srv self w3 of
                       (Inl e, w4) \<Rightarrow> (Inl e, w4)
                     | (Inr u', w4) \<Rightarrow>
                         ClientSession_request srv (iam_timeout self) meth url kwargs w4)
               else (Inr resp, w3)))"
  using assms by (simp add: IAMSession_request_def Let_def split: prod.splits sum.splits)

lemma ClientSession_request_extends:
  "\<exists>tr. trace (snd (ClientSession_request srv t meth url kwargs w)) = trace w @ tr"
  by (simp add: ClientSession_request_def Session_request_def Let_def split: sum.splits)

lemma IAMSession_login_extends:
  "\<exists>tr. trace (snd (IAMSession_login srv self w)) = trace w @ tr"
  using IAMSession_login_trace [of srv self w] by auto

lemma request_after_login_extends:
  "\<exists>tr. trace (snd (case ClientSession_request srv t meth url kwargs w2 of
             (Inl e, w3) \<Rightarrow> (Inl e, w3)
           | (Inr resp, w3) \<Rightarrow>
               if status_code resp = 401
               then (case IAMSession_login srv self w3 of
                       (Inl e, w4) \<Rightarrow> (Inl e, w4)
                     | (Inr u', w4) \<Rightarrow> ClientSession_request srv t meth url kwargs w4)
               else (Inr resp, w3))) = trace w2 @ tr"
proof -
  obtain r3 w3 where c: "ClientSession_request srv t meth url kwargs w2 = (r3, w3)"
    by (cases "ClientSession_request srv t meth url kwargs w2")
  from ClientSession_request_extends [of srv t meth url kwargs w2] c
  obtain tr3 where t3: "trace w3 = trace w2 @ tr3" by auto
  obtain r4 w4 where l: "IAMSession_login srv self w3 = (r4, w4)"
    by (cases "IAMSession_login srv self w3")
  from IAMSession_login_extends [of srv self w3] l
  obtain tr4 where t4: "trace w4 = trace w3 @ tr4" by auto
  obtain tr5 where t5: "trace (snd (ClientSession_request srv t meth url kwargs w4)) = trace w4 @ tr5"
    using ClientSession_request_extends by blast
  show ?thesis
    by (cases r3; cases r4) (simp_all add: c l t3 t4 t5)
qed

lemma IAMSession_request_proactive_trace:
  assumes "iam_auto_renew self"
    and "''IAMSession'' \<notin> set (map cookie_name (clear_expired_cookies (clock w) (cookies w)))"
  shows "\<exists>tr. trace (snd (IAMSession_request srv self meth url kwargs w)) =
           trace w @ Login # Send (token_request self) # tr"
proof -
  let ?w1 = "w\<lparr>cookies := clear_expired_cookies (clock w) (cookies w)\<rparr>"
  obtain r2 w2 where l: "IAMSession_login srv self ?w1 = (r2, w2)"
    by (cases "IAMSession_login srv self ?w1")
  from IAMSession_login_trace [of srv self ?w1] l
  obtain tr2 where t2: "trace w2 = trace w @ Login # Send (token_request self) # tr2" by auto
  from request_after_login_extends [where srv = srv and t = "iam_timeout self" and meth = meth
      and url = url and kwargs = kwargs and ?w2.0 = w2 and self = self]
  obtain tr3 where t3: "trace (snd (case ClientSession_request srv (iam_timeout self) meth url kwargs w2 of
             (Inl e, w3) \<Rightarrow> (Inl e, w3)
           | (Inr resp, w3) \<Rightarrow>
               if status_code resp = 401
               then (case IAMSession_login srv self w3 of
                       (Inl e, w4) \<Rightarrow> (Inl e, w4)
                     | (Inr u', w4) \<Rightarrow> ClientSession_request srv (iam_timeout self) meth url kwargs w4)
               else (Inr resp, w3))) = trace w2 @ tr3" by blast
  show ?thesis
    unfolding IAMSession_request_proactive [OF assms]
    by (cases r2) (simp_all add: l t2 t3)
qed

lemma IAMSession_request_proactive_failure:
  assumes "iam_auto_renew self"
    and "''IAMSession'' \<notin> set (map cookie_name (clear_expired_cookies (clock w) (cookies w)))"
    and "fst (IAMSession_login srv self
                (w\<lparr>cookies := clear_expired_cookies (clock w) (cookies w)\<rparr>)) = Inl e"
  shows "IAMSession_request srv self meth url kwargs w =
     (Inl e, snd (IAMSession_login srv self
                (w\<lparr>cookies := clear_expired_cookies (clock w) (cookies w)\<rparr>)))"
  using assms(3) unfolding IAMSession_request_proactive [OF assms(1,2)]
  by (cases "IAMSession_login srv self
                (w\<lparr>cookies := clear_expired_cookies (clock w) (cookies w)\<rparr>)") simp

lemma ClientSession_request_timeout_given:
  "''timeout'' \<in> dict_keys kwargs \<Longrightarrow>
   ClientSession_request srv t meth url kwargs w = (Inl (Raised TypeError), w)"
  by (simp add: ClientSession_request_def)

lemma IAMSession_request_held_tail:
  assumes "iam_auto_renew self"
    and "''IAMSession'' \<in> set (map cookie_name (clear_expired_cookies (clock w) (cookies w)))"
  shows "IAMSession_request srv self meth url kwargs w =
     (case ClientSession_request srv (iam_timeout self) meth url kwargs
             (w\<lparr>cookies := clear_expired_cookies (clock w) (cookies w)\<rparr>) of
        (Inl e, w3) \<Rightarrow> (Inl e, w3)
      | (Inr resp, w3) \<Rightarrow>
          if status_code resp = 401
          then (case IAMSession_login srv self w3 of
                  (Inl e, w4) \<Rightarrow> (Inl e, w4)
                | (Inr u', w4) \<Rightarrow> ClientSession_request srv (iam_timeout self) meth url kwargs w4)
          else (Inr resp, w3))"
  using assms by (simp add: IAMSession_request_def Let_def split: prod.splits sum.splits)

lemma IAMSession_request_proactive_tail:
  assumes "iam_auto_renew self"
    and "''IAMSession'' \<notin> set (map cookie_name (clear_expired_cookies (clock w) (cookies w)))"
    and "IAMSession_login srv self (w\<lparr>cookies := clear_expired_cookies (clock w) (cookies w)\<rparr>) =
            (Inr (), w2)"
  shows "IAMSession_request srv self meth url kwargs w =
     (case ClientSession_request srv (iam_timeout self) meth url kwargs w2 of
        (Inl e, w3) \<Rightarrow> (Inl e, w3)
      | (Inr resp, w3) \<Rightarrow>
          if status_code resp = 401
          then (case IAMSession_login srv self w3 of
                  (Inl e, w4) \<Rightarrow> (Inl e, w4)
                | (Inr u', w4) \<Rightarrow> ClientSession_request srv (iam_timeout self) meth url kwargs w4)
          else (Inr resp, w3))"
  unfolding IAMSession_request_proactive [OF assms(1,2)] by (simp add: assms(3))

lemma IAMSession_request_after_pre:
  assumes ar: "iam_auto_renew self"
    and pre: "(''IAMSession'' \<in> set (map cookie_name (clear_expired_cookies (clock w) (cookies w))) \<and>
          w2 = w\<lparr>cookies := clear_expired_cookies (clock w) (cookies w)\<rparr>) \<or>
         (''IAMSession'' \<notin> set (map cookie_name (clear_expired_cookies (clock w) (cookies w))) \<and>
          IAMSession_login srv self (w\<lparr>cookies := clear_expired_cookies (clock w) (cookies w)\<rparr>) =
            (Inr (), w2))"
  shows "IAMSession_request srv self meth url kwargs w =
     (case ClientSession_request srv (iam_timeout self) meth url kwargs w2 of
        (Inl e, w3) \<Rightarrow> (Inl e, w3)
      | (Inr resp, w3) \<Rightarrow>
          if status_code resp = 401
          then (case IAMSession_login srv self w3 of
                  (Inl e, w4) \<Rightarrow> (Inl e, w4)
                | (Inr u', w4) \<Rightarrow> ClientSession_request srv (iam_timeout self) meth url kwargs w4)
          else (Inr resp, w3))"
  using pre
proof (elim disjE conjE)
  assume "''IAMSession'' \<in> set (map cookie_name (clear_expired_cookies (clock w) (cookies w)))"
    and "w2 = w\<lparr>cookies := clear_expired_cookies (clock w) (cookies w)\<rparr>"
  then show ?thesis using IAMSession_request_held_tail [OF ar] by simp
next
  assume "''IAMSession'' \<notin> set (map cookie_name (clear_expired_cookies (clock w) (cookies w)))"
    and "IAMSession_login srv self (w\<lparr>cookies := clear_expired_cookies (clock w) (cookies w)\<rparr>) =
            (Inr (), w2)"
  then show ?thesis by (rule IAMSession_request_proactive_tail [OF ar])
qed

lemma tail_timeout_given:
  assumes run: "res = (case ClientSession_request srv (iam_timeout self) meth url kwargs w2 of
        (Inl e, w3) \<Rightarrow> (Inl e, w3)
      | (Inr resp, w3) \<Rightarrow>
          if status_code resp = 401
          then (case IAMSession_login srv self w3 of
                  (Inl e, w4) \<Rightarrow> (Inl e, w4)
                | (Inr u', w4) \<Rightarrow> ClientSession_request srv (iam_timeout self) meth url kwargs w4)
          else (Inr resp, w3))"
    and kw: "''timeout'' \<in> dict_keys kwargs"
  shows "res = (Inl (Raised TypeError), w2)"
  by (simp add: run ClientSession_request_timeout_given [OF kw])

lemma tail_transport_failure:
  assumes run: "res = (case ClientSession_request srv (iam_timeout self) meth url kwargs w2 of
        (Inl e, w3) \<Rightarrow> (Inl e, w3)
      | (Inr resp, w3) \<Rightarrow>
          if status_code resp = 401
          then (case IAMSession_login srv self w3 of
                  (Inl e, w4) \<Rightarrow> (Inl e, w4)
                | (Inr u', w4) \<Rightarrow> ClientSession_request srv (iam_timeout self) meth url kwargs w4)
          else (Inr resp, w3))"
    and rq: "rq = \<lparr>req_method = meth, req_url = url,
            req_kwargs = (''timeout'', iam_timeout self) # kwargs\<rparr>"
    and kw: "''timeout'' \<notin> dict_keys kwargs"
    and first: "srv (sent (trace w2) @ [rq]) = Inl e"
  shows "res = (Inl (Raised (RequestException e)), w2\<lparr>trace := trace w2 @ [Send rq]\<rparr>)"
  using first unfolding run rq
  by (simp add: ClientSession_request_sends [OF kw] Let_def)

lemma tail_other_status:
  assumes run: "res = (case ClientSession_request srv (iam_timeout self) meth url kwargs w2 of
        (Inl e, w3) \<Rightarrow> (Inl e, w3)
      | (Inr resp, w3) \<Rightarrow>
          if status_code resp = 401
          then (case IAMSession_login srv self w3 of
                  (Inl e, w4) \<Rightarrow> (Inl e, w4)
                | (Inr u', w4) \<Rightarrow> ClientSession_request srv (iam_timeout self) meth url kwargs w4)
          else (Inr resp, w3))"
    and rq: "rq = \<lparr>req_method = meth, req_url = url,
            req_kwargs = (''timeout'', iam_timeout self) # kwargs\<rparr>"
    and kw: "''timeout'' \<notin> dict_keys kwargs"
    and first: "srv (sent (trace w2) @ [rq]) = Inr resp"
    and st: "status_code resp \<noteq> 401"
  shows "res = (Inr resp, w2\<lparr>trace := trace w2 @ [Send rq],
                  cookies := store_cookies (set_cookies resp) (cookies w2)\<rparr>)"
  using first st unfolding run rq
  by (simp add: ClientSession_request_sends [OF kw] Let_def)

lemma tail_401:
  assumes run: "res = (case ClientSession_request srv (iam_timeout self) meth url kwargs w2 of
        (Inl e, w3) \<Rightarrow> (Inl e, w3)
      | (Inr resp, w3) \<Rightarrow>
          if status_code resp = 401
          then (case IAMSession_login srv self w3 of
                  (Inl e, w4) \<Rightarrow> (Inl e, w4)
                | (Inr u', w4) \<Rightarrow> ClientSession_request srv (iam_timeout self) meth url kwargs w4)
          else (Inr resp, w3))"
    and rq: "rq = \<lparr>req_method = meth, req_url = url,
            req_kwargs = (''timeout'', iam_timeout self) # kwargs\<rparr>"
    and kw: "''timeout'' \<notin> dict_keys kwargs"
    and first: "srv (sent (trace w2) @ [rq]) = Inr resp"
    and st: "status_code resp = 401"
    and w3: "w3 = w2\<lparr>trace := trace w2 @ [Send rq],
                  cookies := store_cookies (set_cookies resp) (cookies w2)\<rparr>"
  shows "res = (case IAMSession_login srv self w3 of
                  (Inl e, w4) \<Rightarrow> (Inl e, w4)
                | (Inr u', w4) \<Rightarrow> ClientSession_request srv (iam_timeout self) meth url kwargs w4)"
  using first st unfolding run rq w3
  by (simp add: ClientSession_request_sends [OF kw] Let_def)

lemma tail_401_outcomes:
  assumes run: "res = (case ClientSession_request srv (iam_timeout self) meth url kwargs w2 of
        (Inl e, w3) \<Rightarrow> (Inl e, w3)
      | (Inr resp, w3) \<Rightarrow>
          if status_code resp = 401
          then (case IAMSession_login srv self w3 of
                  (Inl e, w4) \<Rightarrow> (Inl e, w4)
                | (Inr u', w4) \<Rightarrow> ClientSession_request srv (iam_timeout self) meth url kwargs w4)
          else (Inr resp, w3))"
    and rq: "rq = \<lparr>req_method = meth, req_url = url,
            req_kwargs = (''timeout'', iam_timeout self) # kwargs\<rparr>"
    and kw: "''timeout'' \<notin> dict_keys kwargs"
    and first: "srv (sent (trace w2) @ [rq]) = Inr resp"
    and st: "status_code resp = 401"
    and w3: "w3 = w2\<lparr>trace := trace w2 @ [Send rq],
                  cookies := store_cookies (set_cookies resp) (cookies w2)\<rparr>"
  shows "count_list (trace (snd res)) Login = Suc (count_list (trace w2) Login) \<and>
              (\<exists>tr. trace (snd (IAMSession_login srv self w3)) =
                      trace w2 @ Send rq # Login # Send (token_request self) # tr \<and>
                    Login \<notin> set tr \<and> length tr \<le> 1) \<and>
              (\<forall>e. fst (IAMSession_login srv self w3) = Inl e \<longrightarrow>
                   res = (Inl e, snd (IAMSession_login srv self w3))) \<and>
              (\<forall>w4. IAMSession_login srv self w3 = (Inr (), w4) \<longrightarrow>
                   res =
                   (case srv (sent (trace w4) @ [rq]) of
                     Inl e \<Rightarrow>
                       (Inl (Raised (RequestException e)), w4\<lparr>trace := trace w4 @ [Send rq]\<rparr>)
                   | Inr resp2 \<Rightarrow>
                       (Inr resp2,
                        w4\<lparr>trace := trace w4 @ [Send rq],
                          cookies := store_cookies (set_cookies resp2) (cookies w4)\<rparr>)))"
proof -
  obtain r4 w4' where l: "IAMSession_login srv self w3 = (r4, w4')"
    by (cases "IAMSession_login srv self w3")
  have tw3: "trace w3 = trace w2 @ [Send rq]" by (simp add: w3)
  from IAMSession_login_trace [of srv self w3] l
  obtain tr where tr: "trace w4' = trace w3 @ Login # Send (token_request self) # tr"
    "Login \<notin> set tr" "length tr \<le> 1" by auto
  have res': "res = (case r4 of Inl e \<Rightarrow> (Inl e, w4')
      | Inr u' \<Rightarrow> ClientSession_request srv (iam_timeout self) meth url kwargs w4')"
    using tail_401 [where res = res and srv = srv and self = self and meth = meth and url = url
        and kwargs = kwargs and ?w2.0 = w2 and rq = rq and resp = resp and ?w3.0 = w3,
        OF run rq kw first st w3]
    by (simp add: l split: sum.splits)
  have again: "trace (snd (ClientSession_request srv (iam_timeout self) meth url kwargs w4')) =
      trace w4' @ [Send rq]"
    by (simp add: ClientSession_request_trace [OF kw] rq)
  have cnt: "count_list (trace w4') Login = Suc (count_list (trace w2) Login)"
    using IAMSession_login_count [of srv self w3] by (simp add: l tw3)
  have c1: "count_list (trace (snd res)) Login = Suc (count_list (trace w2) Login)"
    by (cases r4) (simp_all add: res' again cnt)
  have c2: "\<exists>tr. trace (snd (IAMSession_login srv self w3)) =
                      trace w2 @ Send rq # Login # Send (token_request self) # tr \<and>
                    Login \<notin> set tr \<and> length tr \<le> 1"
    using tr by (simp add: l tw3)
  have c3: "\<forall>e. fst (IAMSession_login srv self w3) = Inl e \<longrightarrow>
                   res = (Inl e, snd (IAMSession_login srv self w3))"
    by (simp add: l res')
  have c4: "\<forall>w4. IAMSession_login srv self w3 = (Inr (), w4) \<longrightarrow>
                   res =
                   (case srv (sent (trace w4) @ [rq]) of
                     Inl e \<Rightarrow>
                       (Inl (Raised (RequestException e)), w4\<lparr>trace := trace w4 @ [Send rq]\<rparr>)
                   | Inr resp2 \<Rightarrow>
                       (Inr resp2,
                        w4\<lparr>trace := trace w4 @ [Send rq],
                          cookies := store_cookies (set_cookies resp2) (cookies w4)\<rparr>))"
    unfolding l res' rq
    by (simp add: ClientSession_request_sends [OF kw] Let_def)
  from c1 c2 c3 c4 show ?thesis by (intro conjI)
qed

lemma tail_outcomes:
  assumes run: "res = (case ClientSession_request srv (iam_timeout self) meth url kwargs w2 of
        (Inl e, w3) \<Rightarrow> (Inl e, w3)
      | (Inr resp, w3) \<Rightarrow>
          if status_code resp = 401
          then (case IAMSession_login srv self w3 of
                  (Inl e, w4) \<Rightarrow> (Inl e, w4)
                | (Inr u', w4) \<Rightarrow> ClientSession_request srv (iam_timeout self) meth url kwargs w4)
          else (Inr resp, w3))"
    and rq: "rq = \<lparr>req_method = meth, req_url = url,
            req_kwargs = (''timeout'', iam_timeout self) # kwargs\<rparr>"
  shows "(''timeout'' \<in> dict_keys kwargs \<longrightarrow> res = (Inl (Raised TypeError), w2)) \<and>
     (''timeout'' \<notin> dict_keys kwargs \<longrightarrow>
        (\<forall>e. srv (sent (trace w2) @ [rq]) = Inl e \<longrightarrow>
           res = (Inl (Raised (RequestException e)), w2\<lparr>trace := trace w2 @ [Send rq]\<rparr>)) \<and>
        (\<forall>resp w3.
           srv (sent (trace w2) @ [rq]) = Inr resp \<and>
           w3 = w2\<lparr>trace := trace w2 @ [Send rq],
                  cookies := store_cookies (set_cookies resp) (cookies w2)\<rparr> \<longrightarrow>
           (status_code resp \<noteq> 401 \<longrightarrow> res = (Inr resp, w3)) \<and>
           (status_code resp = 401 \<longrightarrow>
              count_list (trace (snd res)) Login = Suc (count_list (trace w2) Login) \<and>
              (\<exists>tr. trace (snd (IAMSession_login srv self w3)) =
                      trace w2 @ Send rq # Login # Send (token_request self) # tr \<and>
                    Login \<notin> set tr \<and> length tr \<le> 1) \<and>
              (\<forall>e. fst (IAMSession_login srv self w3) = Inl e \<longrightarrow>
                   res = (Inl e, snd (IAMSession_login srv self w3))) \<and>
              (\<forall>w4. IAMSession_login srv self w3 = (Inr (), w4) \<longrightarrow>
                   res =
                   (case srv (sent (trace w4) @ [rq]) of
                     Inl e \<Rightarrow>
                       (Inl (Raised (RequestException e)), w4\<lparr>trace := trace w4 @ [Send rq]\<rparr>)
                   | Inr resp2 \<Rightarrow>
                       (Inr resp2,
                        w4\<lparr>trace := trace w4 @ [Send rq],
                          cookies := store_cookies (set_cookies resp2) (cookies w4)\<rparr>))))))"
proof (intro conjI impI allI)
  assume "''timeout'' \<in> dict_keys kwargs"
  with run show "res = (Inl (Raised TypeError), w2)" by (rule tail_timeout_given)
next
  fix e
  assume kw: "''timeout'' \<notin> dict_keys kwargs" and first: "srv (sent (trace w2) @ [rq]) = Inl e"
  show "res = (Inl (Raised (RequestException e)), w2\<lparr>trace := trace w2 @ [Send rq]\<rparr>)"
    by (rule tail_transport_failure
        [where res = res and srv = srv and self = self and meth = meth and url = url
          and kwargs = kwargs and ?w2.0 = w2 and rq = rq and e = e, OF run rq kw first])
next
  fix resp w3
  assume kw: "''timeout'' \<notin> dict_keys kwargs"
    and a: "srv (sent (trace w2) @ [rq]) = Inr resp \<and>
           w3 = w2\<lparr>trace := trace w2 @ [Send rq],
                  cookies := store_cookies (set_cookies resp) (cookies w2)\<rparr>"
    and st: "status_code resp \<noteq> 401"
  from a have first: "srv (sent (trace w2) @ [rq]) = Inr resp"
    and w3: "w3 = w2\<lparr>trace := trace w2 @ [Send rq],
                  cookies := store_cookies (set_cookies resp) (cookies w2)\<rparr>" by blast+
  show "res = (Inr resp, w3)"
    unfolding w3
    by (rule tail_other_status
        [where res = res and srv = srv and self = self and meth = meth and url = url
          and kwargs = kwargs and ?w2.0 = w2 and rq = rq and resp = resp, OF run rq kw first st])
next
  fix resp w3
  assume kw: "''timeout'' \<notin> dict_keys kwargs"
    and a: "srv (sent (trace w2) @ [rq]) = Inr resp \<and>
           w3 = w2\<lparr>trace := trace w2 @ [Send rq],
                  cookies := store_cookies (set_cookies resp) (cookies w2)\<rparr>"
    and st: "status_code resp = 401"
  from a have first: "srv (sent (trace w2) @ [rq]) = Inr resp"
    and w3: "w3 = w2\<lparr>trace := trace w2 @ [Send rq],
                  cookies := store_cookies (set_cookies resp) (cookies w2)\<rparr>" by blast+
  note all = tail_401_outcomes
        [where res = res and srv = srv and self = self and meth = meth and url = url
          and kwargs = kwargs and ?w2.0 = w2 and rq = rq and resp = resp and ?w3.0 = w3,
          OF run rq kw first st w3]
  from all show "count_list (trace (snd res)) Login = Suc (count_list (trace w2) Login)"
    by (rule conjunct1)
  from all show "\<exists>tr. trace (snd (IAMSession_login srv self w3)) =
                      trace w2 @ Send rq # Login # Send (token_request self) # tr \<and>
                    Login \<notin> set tr \<and> length tr \<le> 1"
    by (rule conjunct1 [OF conjunct2])
  fix e assume "fst (IAMSession_login srv self w3) = Inl e"
  with all show "res = (Inl e, snd (IAMSession_login srv self w3))" by blast
next
  fix resp w3 w4
  assume kw: "''timeout'' \<notin> dict_keys kwargs"
    and a: "srv (sent (trace w2) @ [rq]) = Inr resp \<and>
           w3 = w2\<lparr>trace := trace w2 @ [Send rq],
                  cookies := store_cookies (set_cookies resp) (cookies w2)\<rparr>"
    and st: "status_code resp = 401"
    and l: "IAMSession_login srv self w3 = (Inr (), w4)"
  from a have first: "srv (sent (trace w2) @ [rq]) = Inr resp"
    and w3: "w3 = w2\<lparr>trace := trace w2 @ [Send rq],
                  cookies := store_cookies (set_cookies resp) (cookies w2)\<rparr>" by blast+
  note all = tail_401_outcomes
        [where res = res and srv = srv and self = self and meth = meth and url = url
          and kwargs = kwargs and ?w2.0 = w2 and rq = rq and resp = resp and ?w3.0 = w3,
          OF run rq kw first st w3]
  from all l show "res =
                   (case srv (sent (trace w4) @ [rq]) of
                     Inl e \<Rightarrow>
                       (Inl (Raised (RequestException e)), w4\<lparr>trace := trace w4 @ [Send rq]\<rparr>)
                   | Inr resp2 \<Rightarrow>
                       (Inr resp2,
                        w4\<lparr>trace := trace w4 @ [Send rq],
                          cookies := store_cookies (set_cookies resp2) (cookies w4)\<rparr>))"
    by blast
qed

text \<open>
  Claim C4, as amended. \<^verbatim>\<open>IAMSession.request\<close> first clears the expired cookies; the
  tests that follow see the cleared store \<open>w1\<close>. With \<^verbatim>\<open>auto_renew\<close> disabled the
  request is sent once and its outcome returned, and \<^verbatim>\<open>login\<close> is never called. With
  \<^verbatim>\<open>auto_renew\<close> enabled and no \<^verbatim>\<open>IAMSession\<close> cookie held, \<^verbatim>\<open>login\<close> is called before
  anything else is sent, whatever the server would have answered, and a failure of that
  login is raised without the request being sent. With \<^verbatim>\<open>auto_renew\<close> enabled, let \<open>w2\<close>
  be the state in which the request is first sent: the cleared store when the cookie is
  held, the state left by the login when it is not and the login succeeds. From \<open>w2\<close>, a
  \<^verbatim>\<open>timeout\<close> passed by the caller raises \<^verbatim>\<open>TypeError\<close>; otherwise the request is sent to
  the server, a failure of the transport is raised, and a first response other than 401
  is returned; after a first response 401, \<^verbatim>\<open>login\<close> is called once more, and when it
  succeeds the request is sent to the server once more and the outcome returned whatever
  it is, while a failure of the login is raised and the request is not sent again.
\<close>

theorem iam_request_renewal:
  assumes rq: "rq = \<lparr>req_method = meth, req_url = url,
            req_kwargs = (''timeout'', iam_timeout self) # kwargs\<rparr>"
    and w1: "w1 = w\<lparr>cookies := clear_expired_cookies (clock w) (cookies w)\<rparr>"
    and res: "res = IAMSession_request srv self meth url kwargs w"
  shows "(\<not> iam_auto_renew self \<longrightarrow>
       (''timeout'' \<in> dict_keys kwargs \<longrightarrow> res = (Inl (Raised TypeError), w1)) \<and>
       (''timeout'' \<notin> dict_keys kwargs \<longrightarrow>
          res =
          (case srv (sent (trace w) @ [rq]) of
             Inl e \<Rightarrow> (Inl (Raised (RequestException e)), w1\<lparr>trace := trace w @ [Send rq]\<rparr>)
           | Inr resp \<Rightarrow>
               (Inr resp,
                w1\<lparr>trace := trace w @ [Send rq],
                  cookies := store_cookies (set_cookies resp) (cookies w1)\<rparr>)))) \<and>
    (iam_auto_renew self \<and> ''IAMSession'' \<notin> set (map cookie_name (cookies w1)) \<longrightarrow>
       (\<exists>tr. trace (snd res) = trace w @ Login # Send (token_request self) # tr) \<and>
       (\<forall>e. fst (IAMSession_login srv self w1) = Inl e \<longrightarrow>
            res = (Inl e, snd (IAMSession_login srv self w1))) \<and>
       (\<forall>w2. IAMSession_login srv self w1 = (Inr (), w2) \<longrightarrow>
            (\<exists>tr. trace w2 = trace w @ Login # Send (token_request self) # tr \<and>
                  Login \<notin> set tr \<and> length tr \<le> 1))) \<and>
    (\<forall>w2.
       iam_auto_renew self \<and>
       ((''IAMSession'' \<in> set (map cookie_name (cookies w1)) \<and> w2 = w1) \<or>
        (''IAMSession'' \<notin> set (map cookie_name (cookies w1)) \<and>
         IAMSession_login srv self w1 = (Inr (), w2))) \<longrightarrow>
     (''timeout'' \<in> dict_keys kwargs \<longrightarrow> res = (Inl (Raised TypeError), w2)) \<and>
     (''timeout'' \<notin> dict_keys kwargs \<longrightarrow>
        (\<forall>e. srv (sent (trace w2) @ [rq]) = Inl e \<longrightarrow>
           res = (Inl (Raised (RequestException e)), w2\<lparr>trace := trace w2 @ [Send rq]\<rparr>)) \<and>
        (\<forall>resp w3.
           srv (sent (trace w2) @ [rq]) = Inr resp \<and>
           w3 = w2\<lparr>trace := trace w2 @ [Send rq],
                  cookies := store_cookies (set_cookies resp) (cookies w2)\<rparr> \<longrightarrow>
           (status_code resp \<noteq> 401 \<longrightarrow> res = (Inr resp, w3)) \<and>
           (status_code resp = 401 \<longrightarrow>
              count_list (trace (snd res)) Login = Suc (count_list (trace w2) Login) \<and>
              (\<exists>tr. trace (snd (IAMSession_login srv self w3)) =
                      trace w2 @ Send rq # Login # Send (token_request self) # tr \<and>
                    Login \<notin> set tr \<and> length tr \<le> 1) \<and>
              (\<forall>e. fst (IAMSession_login srv self w3) = Inl e \<longrightarrow>
                   res = (Inl e, snd (IAMSession_login srv self w3))) \<and>
              (\<forall>w4. IAMSession_login srv self w3 = (Inr (), w4) \<longrightarrow>
                   res =
                   (case srv (sent (trace w4) @ [rq]) of
                     Inl e \<Rightarrow>
                       (Inl (Raised (RequestException e)), w4\<lparr>trace := trace w4 @ [Send rq]\<rparr>)
                   | Inr resp2 \<Rightarrow>
                       (Inr resp2,
                        w4\<lparr>trace := trace w4 @ [Send rq],
                          cookies := store_cookies (set_cookies resp2) (cookies w4)\<rparr>)))))))"
proof (intro conjI)
  show "\<not> iam_auto_renew self \<longrightarrow>
       (''timeout'' \<in> dict_keys kwargs \<longrightarrow> res = (Inl (Raised TypeError), w1)) \<and>
       (''timeout'' \<notin> dict_keys kwargs \<longrightarrow>
          res =
          (case srv (sent (trace w) @ [rq]) of
             Inl e \<Rightarrow> (Inl (Raised (RequestException e)), w1\<lparr>trace := trace w @ [Send rq]\<rparr>)
           | Inr resp \<Rightarrow>
               (Inr resp,
                w1\<lparr>trace := trace w @ [Send rq],
                  cookies := store_cookies (set_cookies resp) (cookies w1)\<rparr>)))"
  proof (rule impI, rule conjI; rule impI)
    assume nar: "\<not> iam_auto_renew self" and kw: "''timeout'' \<in> dict_keys kwargs"
    show "res = (Inl (Raised TypeError), w1)"
      by (simp add: res w1 IAMSession_request_no_renew [OF nar]
          ClientSession_request_timeout_given [OF kw])
  next
    assume nar: "\<not> iam_auto_renew self" and kw: "''timeout'' \<notin> dict_keys kwargs"
    show "res =
          (case srv (sent (trace w) @ [rq]) of
             Inl e \<Rightarrow> (Inl (Raised (RequestException e)), w1\<lparr>trace := trace w @ [Send rq]\<rparr>)
           | Inr resp \<Rightarrow>
               (Inr resp,
                w1\<lparr>trace := trace w @ [Send rq],
                  cookies := store_cookies (set_cookies resp) (cookies w1)\<rparr>))"
      unfolding res w1 rq
      by (simp add: IAMSession_request_no_renew [OF nar] ClientSession_request_sends [OF kw]
          Let_def split: sum.splits)
  qed
next
  show "iam_auto_renew self \<and> ''IAMSession'' \<notin> set (map cookie_name (cookies w1)) \<longrightarrow>
       (\<exists>tr. trace (snd res) = trace w @ Login # Send (token_request self) # tr) \<and>
       (\<forall>e. fst (IAMSession_login srv self w1) = Inl e \<longrightarrow>
            res = (Inl e, snd (IAMSession_login srv self w1))) \<and>
       (\<forall>w2. IAMSession_login srv self w1 = (Inr (), w2) \<longrightarrow>
            (\<exists>tr. trace w2 = trace w @ Login # Send (token_request self) # tr \<and>
                  Login \<notin> set tr \<and> length tr \<le> 1))"
  proof (rule impI)
    assume a: "iam_auto_renew self \<and> ''IAMSession'' \<notin> set (map cookie_name (cookies w1))"
    then have ar: "iam_auto_renew self"
      and nh: "''IAMSession'' \<notin> set (map cookie_name (clear_expired_cookies (clock w) (cookies w)))"
      by (simp_all add: w1)
    have b1: "\<exists>tr. trace (snd res) = trace w @ Login # Send (token_request self) # tr"
      unfolding res by (rule IAMSession_request_proactive_trace [OF ar nh])
    have b2: "\<forall>e. fst (IAMSession_login srv self w1) = Inl e \<longrightarrow>
            res = (Inl e, snd (IAMSession_login srv self w1))"
      unfolding res w1 using IAMSession_request_proactive_failure [OF ar nh] by blast
    have b3: "\<forall>w2. IAMSession_login srv self w1 = (Inr (), w2) \<longrightarrow>
            (\<exists>tr. trace w2 = trace w @ Login # Send (token_request self) # tr \<and>
                  Login \<notin> set tr \<and> length tr \<le> 1)"
    proof (intro allI impI)
      fix w2 assume l: "IAMSession_login srv self w1 = (Inr (), w2)"
      from IAMSession_login_trace [of srv self w1] l
      show "\<exists>tr. trace w2 = trace w @ Login # Send (token_request self) # tr \<and>
                  Login \<notin> set tr \<and> length tr \<le> 1"
        by (simp add: w1)
    qed
    from b1 b2 b3 show "(\<exists>tr. trace (snd res) = trace w @ Login # Send (token_request self) # tr) \<and>
       (\<forall>e. fst (IAMSession_login srv self w1) = Inl e \<longrightarrow>
            res = (Inl e, snd (IAMSession_login srv self w1))) \<and>
       (\<forall>w2. IAMSession_login srv self w1 = (Inr (), w2) \<longrightarrow>
            (\<exists>tr. trace w2 = trace w @ Login # Send (token_request self) # tr \<and>
                  Login \<notin> set tr \<and> length tr \<le> 1))"
      by (intro conjI)
  qed
next
  show "\<forall>w2.
       iam_auto_renew self \<and>
       ((''IAMSession'' \<in> set (map cookie_name (cookies w1)) \<and> w2 = w1) \<or>
        (''IAMSession'' \<notin> set (map cookie_name (cookies w1)) \<and>
         IAMSession_login srv self w1 = (Inr (), w2))) \<longrightarrow>
     (''timeout'' \<in> dict_keys kwargs \<longrightarrow> res = (Inl (Raised TypeError), w2)) \<and>
     (''timeout'' \<notin> dict_keys kwargs \<longrightarrow>
        (\<forall>e. srv (sent (trace w2) @ [rq]) = Inl e \<longrightarrow>
           res = (Inl (Raised (RequestException e)), w2\<lparr>trace := trace w2 @ [Send rq]\<rparr>)) \<and>
        (\<forall>resp w3.
           srv (sent (trace w2) @ [rq]) = Inr resp \<and>
           w3 = w2\<lparr>trace := trace w2 @ [Send rq],
                  cookies := store_cookies (set_cookies resp) (cookies w2)\<rparr> \<longrightarrow>
           (status_code resp \<noteq> 401 \<longrightarrow> res = (Inr resp, w3)) \<and>
           (status_code resp = 401 \<longrightarrow>
              count_list (trace (snd res)) Login = Suc (count_list (trace w2) Login) \<and>
              (\<exists>tr. trace (snd (IAMSession_login srv self w3)) =
                      trace w2 @ Send rq # Login # Send (token_request self) # tr \<and>
                    Login \<notin> set tr \<and> length tr \<le> 1) \<and>
              (\<forall>e. fst (IAMSession_login srv self w3) = Inl e \<longrightarrow>
                   res = (Inl e, snd (IAMSession_login srv self w3))) \<and>
              (\<forall>w4. IAMSession_login srv self w3 = (Inr (), w4) \<longrightarrow>
                   res =
                   (case srv (sent (trace w4) @ [rq]) of
                     Inl e \<Rightarrow>
                       (Inl (Raised (RequestException e)), w4\<lparr>trace := trace w4 @ [Send rq]\<rparr>)
                   | Inr resp2 \<Rightarrow>
                       (Inr resp2,
                        w4\<lparr>trace := trace w4 @ [Send rq],
                          cookies := store_cookies (set_cookies resp2) (cookies w4)\<rparr>))))))"
  proof (rule allI, rule impI)
    fix w2
    assume a: "iam_auto_renew self \<and>
       ((''IAMSession'' \<in> set (map cookie_name (cookies w1)) \<and> w2 = w1) \<or>
        (''IAMSession'' \<notin> set (map cookie_name (cookies w1)) \<and>
         IAMSession_login srv self w1 = (Inr (), w2)))"
    then have ar: "iam_auto_renew self" by (rule conjunct1)
    from a have pre:
      "(''IAMSession'' \<in> set (map cookie_name (clear_expired_cookies (clock w) (cookies w))) \<and>
          w2 = w\<lparr>cookies := clear_expired_cookies (clock w) (cookies w)\<rparr>) \<or>
         (''IAMSession'' \<notin> set (map cookie_name (clear_expired_cookies (clock w) (cookies w))) \<and>
          IAMSession_login srv self (w\<lparr>cookies := clear_expired_cookies (clock w) (cookies w)\<rparr>) =
            (Inr (), w2))"
      by (simp add: w1)
    have run: "res = (case ClientSession_request srv (iam_timeout self) meth url kwargs w2 of
        (Inl e, w3) \<Rightarrow> (Inl e, w3)
      | (Inr resp, w3) \<Rightarrow>
          if status_code resp = 401
          then (case IAMSession_login srv self w3 of
                  (Inl e, w4) \<Rightarrow> (Inl e, w4)
                | (Inr u', w4) \<Rightarrow> ClientSession_request srv (iam_timeout self) meth url kwargs w4)
          else (Inr resp, w3))"
      unfolding res by (rule IAMSession_request_after_pre [OF ar pre])
    show "(''timeout'' \<in> dict_keys kwargs \<longrightarrow> res = (Inl (Raised TypeError), w2)) \<and>
     (''timeout'' \<notin> dict_keys kwargs \<longrightarrow>
        (\<forall>e. srv (sent (trace w2) @ [rq]) = Inl e \<longrightarrow>
           res = (Inl (Raised (RequestException e)), w2\<lparr>trace := trace w2 @ [Send rq]\<rparr>)) \<and>
        (\<forall>resp w3.
           srv (sent (trace w2) @ [rq]) = Inr resp \<and>
           w3 = w2\<lparr>trace := trace w2 @ [Send rq],
                  cookies := store_cookies (set_cookies resp) (cookies w2)\<rparr> \<longrightarrow>
           (status_code resp \<noteq> 401 \<longrightarrow> res = (Inr resp, w3)) \<and>
           (status_code resp = 401 \<longrightarrow>
              count_list (trace (snd res)) Login = Suc (count_list (trace w2) Login) \<and>
              (\<exists>tr. trace (snd (IAMSession_login srv self w3)) =
                      trace w2 @ Send rq # Login # Send (token_request self) # tr \<and>
                    Login \<notin> set tr \<and> length tr \<le> 1) \<and>
              (\<forall>e. fst (IAMSession_login srv self w3) = Inl e \<longrightarrow>
                   res = (Inl e, snd (IAMSession_login srv self w3))) \<and>
              (\<forall>w4. IAMSession_login srv self w3 = (Inr (), w4) \<longrightarrow>
                   res =
                   (case srv (sent (trace w4) @ [rq]) of
                     Inl e \<Rightarrow>
                       (Inl (Raised (RequestException e)), w4\<lparr>trace := trace w4 @ [Send rq]\<rparr>)
                   | Inr resp2 \<Rightarrow>
                       (Inr resp2,
                        w4\<lparr>trace := trace w4 @ [Send rq],
                          cookies := store_cookies (set_cookies resp2) (cookies w4)\<rparr>))))))"
      by (rule tail_outcomes
          [where res = res and srv = srv and self = self and meth = meth and url = url
            and kwargs = kwargs and ?w2.0 = w2 and rq = rq, OF run rq])
  qed
qed

lemmas session_examples =
  server_401_def server_200_def server_400_def server_down_def server_first_401_def
  server_third_401_def response_401_def response_200_def response_400_def world_empty_def
  world_with_cookie_def cookie_session_renewing_def iam_session_renewing_def request_db_def

lemmas iam_eval =
  IAMSession_request_def IAMSession_login_def IAMSession_get_access_token_def
  token_request_sends exchange_request_sends ClientSession_request_sends dict_keys_def
  clear_expired_cookies_def response_json_def raise_for_status_def store_cookies_def
  Let_def encode_basestring_ascii_def escape_char_def sent_append
  token_request_def exchange_request_def

text \<open>
  Claim C4 as stated fails when the login after the 401 fails: the session holds an
  \<^verbatim>\<open>IAMSession\<close> cookie, the server answers every request with status 401, and the call
  raises the exception of the token request; the request was sent once, not twice.
\<close>

theorem iam_request_login_failure_counterexample:
  "iam_auto_renew iam_session_renewing \<and>
   ''IAMSession'' \<in> set (map cookie_name
      (clear_expired_cookies (clock world_with_cookie) (cookies world_with_cookie))) \<and>
   server_401 (sent (trace world_with_cookie) @ [request_db]) = Inr response_401 \<and>
   status_code response_401 = 401 \<and>
   IAMSession_request server_401 iam_session_renewing ''GET'' ''https://host/db'' []
       world_with_cookie =
     (Inl (CloudantException (PStr ''Failed to contact IAM token service'')),
      \<lparr>trace = [Send request_db, Login, Send (token_request iam_session_renewing)],
       cookies = [\<lparr>cookie_name = ''IAMSession'', expires = None\<rparr>], clock = 0\<rparr>)"
  by (simp add: iam_eval session_examples)

theorem iam_request_renewal_witness:
  "iam_auto_renew iam_session_renewing \<and>
   ''IAMSession'' \<in> set (map cookie_name (cookies world_with_cookie)) \<and>
   server_first_401 (sent (trace world_with_cookie) @ [request_db]) = Inr response_401 \<and>
   IAMSession_request server_first_401 iam_session_renewing ''GET'' ''https://host/db'' []
       world_with_cookie =
     (Inr response_200,
      \<lparr>trace = [Send request_db, Login, Send (token_request iam_session_renewing),
                Send (exchange_request iam_session_renewing
                  (''{'' @ encode_basestring_ascii ''access_token'' @ '': '' @
                   encode_basestring_ascii ''tok'' @ ''}'')),
                Send request_db],
       cookies = [\<lparr>cookie_name = ''IAMSession'', expires = None\<rparr>], clock = 0\<rparr>) \<and>
   ''IAMSession'' \<notin> set (map cookie_name (cookies world_empty)) \<and>
   IAMSession_login server_third_401 iam_session_renewing world_empty =
     (Inr (),
      \<lparr>trace = [Login, Send (token_request iam_session_renewing),
                Send (exchange_request iam_session_renewing
                  (''{'' @ encode_basestring_ascii ''access_token'' @ '': '' @
                   encode_basestring_ascii ''tok'' @ ''}''))],
       cookies = [], clock = 0\<rparr>) \<and>
   IAMSession_request server_third_401 iam_session_renewing ''GET'' ''https://host/db'' []
       world_empty =
     (Inr response_200,
      \<lparr>trace = [Login, Send (token_request iam_session_renewing),
                Send (exchange_request iam_session_renewing
                  (''{'' @ encode_basestring_ascii ''access_token'' @ '': '' @
                   encode_basestring_ascii ''tok'' @ ''}'')),
                Send request_db, Login, Send (token_request iam_session_renewing),
                Send (exchange_request iam_session_renewing
                  (''{'' @ encode_basestring_ascii ''access_token'' @ '': '' @
                   encode_basestring_ascii ''tok'' @ ''}'')),
                Send request_db],
       cookies = [], clock = 0\<rparr>) \<and>
   \<not> iam_auto_renew (iam_session_renewing\<lparr>iam_auto_renew := False\<rparr>) \<and>
   IAMSession_request server_401 (iam_session_renewing\<lparr>iam_auto_renew := False\<rparr>) ''GET''
       ''https://host/db'' [] world_empty =
     (Inr response_401, \<lparr>trace = [Send request_db], cookies = [], clock = 0\<rparr>)"
proof -
  let ?x = "Send (exchange_request iam_session_renewing
                  (''{'' @ encode_basestring_ascii ''access_token'' @ '': '' @
                   encode_basestring_ascii ''tok'' @ ''}''))"
  let ?t = "Send (token_request iam_session_renewing)"
  let ?w3 = "world_with_cookie\<lparr>trace := trace world_with_cookie @ [Send request_db],
      cookies := store_cookies (set_cookies response_401) (cookies world_with_cookie)\<rparr>"
  let ?w4 = "\<lparr>trace = [Send request_db, Login, ?t, ?x],
       cookies = [\<lparr>cookie_name = ''IAMSession'', expires = None\<rparr>], clock = 0\<rparr>"
  let ?v2 = "\<lparr>trace = [Login, ?t, ?x], cookies = [], clock = 0\<rparr>"
  let ?v3 = "?v2\<lparr>trace := trace ?v2 @ [Send request_db],
      cookies := store_cookies (set_cookies response_401) (cookies ?v2)\<rparr>"
  let ?v4 = "\<lparr>trace = [Login, ?t, ?x, Send request_db, Login, ?t, ?x],
       cookies = [], clock = 0\<rparr>"
  have rq: "request_db = \<lparr>req_method = ''GET'', req_url = ''https://host/db'',
      req_kwargs = (''timeout'', iam_timeout iam_session_renewing) # []\<rparr>"
    by (simp add: request_db_def iam_session_renewing_def)
  have kw: "''timeout'' \<notin> dict_keys []"
    by (simp add: dict_keys_def)
  have st: "status_code response_401 = 401"
    by (simp add: response_401_def)

  have w1: "world_with_cookie = world_with_cookie\<lparr>cookies :=
      clear_expired_cookies (clock world_with_cookie) (cookies world_with_cookie)\<rparr>"
    by (simp add: world_with_cookie_def clear_expired_cookies_def)
  have pre: "iam_auto_renew iam_session_renewing \<and>
       ((''IAMSession'' \<in> set (map cookie_name (cookies world_with_cookie)) \<and>
         world_with_cookie = world_with_cookie) \<or>
        (''IAMSession'' \<notin> set (map cookie_name (cookies world_with_cookie)) \<and>
         IAMSession_login server_first_401 iam_session_renewing world_with_cookie =
           (Inr (), world_with_cookie)))"
    by (simp add: world_with_cookie_def iam_session_renewing_def)
  have first: "server_first_401 (sent (trace world_with_cookie) @ [request_db]) =
      Inr response_401 \<and> ?w3 = ?w3"
    by (simp add: server_first_401_def world_with_cookie_def)
  have login: "IAMSession_login server_first_401 iam_session_renewing ?w3 = (Inr (), ?w4)"
    by (simp add: iam_eval session_examples)
  have again: "server_first_401 (sent (trace ?w4) @ [request_db]) = Inr response_200"
    by (simp add: server_first_401_def)
  note t = iam_request_renewal [where rq = request_db and meth = "''GET''"
      and url = "''https://host/db''" and self = iam_session_renewing and kwargs = "[]"
      and w = world_with_cookie and ?w1.0 = world_with_cookie and srv = server_first_401
      and res = "IAMSession_request server_first_401 iam_session_renewing ''GET''
         ''https://host/db'' [] world_with_cookie", OF rq w1 refl]
  note c = t [THEN conjunct2, THEN conjunct2, THEN spec [where x = world_with_cookie],
      THEN mp, OF pre, THEN conjunct2, THEN mp, OF kw, THEN conjunct2,
      THEN spec [where x = response_401], THEN spec [where x = ?w3], THEN mp, OF first,
      THEN conjunct2, THEN mp, OF st]
  note r = c [THEN conjunct2, THEN conjunct2, THEN conjunct2, THEN spec [where x = ?w4],
      THEN mp, OF login]
  have res: "IAMSession_request server_first_401 iam_session_renewing ''GET'' ''https://host/db'' []
       world_with_cookie =
     (Inr response_200,
      \<lparr>trace = [Send request_db, Login, Send (token_request iam_session_renewing),
                Send (exchange_request iam_session_renewing
                  (''{'' @ encode_basestring_ascii ''access_token'' @ '': '' @
                   encode_basestring_ascii ''tok'' @ ''}'')),
                Send request_db],
       cookies = [\<lparr>cookie_name = ''IAMSession'', expires = None\<rparr>], clock = 0\<rparr>)"
    unfolding r again by (simp add: response_200_def store_cookies_def)

  have v1: "world_empty = world_empty\<lparr>cookies :=
      clear_expired_cookies (clock world_empty) (cookies world_empty)\<rparr>"
    by (simp add: world_empty_def clear_expired_cookies_def)
  have proactive: "IAMSession_login server_third_401 iam_session_renewing world_empty =
      (Inr (), ?v2)"
    by (simp add: iam_eval session_examples)
  have absent: "''IAMSession'' \<notin> set (map cookie_name (cookies world_empty))"
    by (simp add: world_empty_def)
  have pre2: "iam_auto_renew iam_session_renewing \<and>
       ((''IAMSession'' \<in> set (map cookie_name (cookies world_empty)) \<and> ?v2 = world_empty) \<or>
        (''IAMSession'' \<notin> set (map cookie_name (cookies world_empty)) \<and>
         IAMSession_login server_third_401 iam_session_renewing world_empty = (Inr (), ?v2)))"
    using proactive absent by (simp add: iam_session_renewing_def)
  have third: "server_third_401 (sent (trace ?v2) @ [request_db]) = Inr response_401 \<and>
      ?v3 = ?v3"
    by (simp add: server_third_401_def sent_append)
  have login2: "IAMSession_login server_third_401 iam_session_renewing ?v3 = (Inr (), ?v4)"
    by (simp add: iam_eval session_examples)
  have again2: "server_third_401 (sent (trace ?v4) @ [request_db]) = Inr response_200"
    by (simp add: server_third_401_def sent_append)
  note t2 = iam_request_renewal [where rq = request_db and meth = "''GET''"
      and url = "''https://host/db''" and self = iam_session_renewing and kwargs = "[]"
      and w = world_empty and ?w1.0 = world_empty and srv = server_third_401
      and res = "IAMSession_request server_third_401 iam_session_renewing ''GET''
         ''https://host/db'' [] world_empty", OF rq v1 refl]
  note c2 = t2 [THEN conjunct2, THEN conjunct2, THEN spec [where x = ?v2],
      THEN mp, OF pre2, THEN conjunct2, THEN mp, OF kw, THEN conjunct2,
      THEN spec [where x = response_401], THEN spec [where x = ?v3], THEN mp, OF third,
      THEN conjunct2, THEN mp, OF st]
  note r2 = c2 [THEN conjunct2, THEN conjunct2, THEN conjunct2, THEN spec [where x = ?v4],
      THEN mp, OF login2]
  have res2: "IAMSession_request server_third_401 iam_session_renewing ''GET'' ''https://host/db'' []
       world_empty =
     (Inr response_200,
      \<lparr>trace = [Login, Send (token_request iam_session_renewing),
                Send (exchange_request iam_session_renewing
                  (''{'' @ encode_basestring_ascii ''access_token'' @ '': '' @
                   encode_basestring_ascii ''tok'' @ ''}'')),
                Send request_db, Login, Send (token_request iam_session_renewing),
                Send (exchange_request iam_session_renewing
                  (''{'' @ encode_basestring_ascii ''access_token'' @ '': '' @
                   encode_basestring_ascii ''tok'' @ ''}'')),
                Send request_db],
       cookies = [], clock = 0\<rparr>)"
    unfolding r2 again2 by (simp add: response_200_def store_cookies_def)
  let ?s0 = "iam_session_renewing\<lparr>iam_auto_renew := False\<rparr>"
  have rq0: "request_db = \<lparr>req_method = ''GET'', req_url = ''https://host/db'',
      req_kwargs = (''timeout'', iam_timeout ?s0) # []\<rparr>"
    by (simp add: request_db_def iam_session_renewing_def)
  have off: "\<not> iam_auto_renew ?s0"
    by simp
  note t0 = iam_request_renewal [where rq = request_db and meth = "''GET''"
      and url = "''https://host/db''" and self = ?s0 and kwargs = "[]"
      and w = world_empty and ?w1.0 = world_empty and srv = server_401
      and res = "IAMSession_request server_401 ?s0 ''GET'' ''https://host/db'' [] world_empty",
      OF rq0 v1 refl]
  note r0 = t0 [THEN conjunct1, THEN mp, OF off, THEN conjunct2, THEN mp, OF kw]
  have res0: "IAMSession_request server_401 ?s0 ''GET'' ''https://host/db'' [] world_empty =
     (Inr response_401, \<lparr>trace = [Send request_db], cookies = [], clock = 0\<rparr>)"
    unfolding r0
    by (simp add: server_401_def response_401_def store_cookies_def world_empty_def)

  have on: "iam_auto_renew iam_session_renewing"
    using pre by (rule conjunct1)
  have held: "''IAMSession'' \<in> set (map cookie_name (cookies world_with_cookie))"
    by (simp add: world_with_cookie_def)
  have first': "server_first_401 (sent (trace world_with_cookie) @ [request_db]) =
      Inr response_401"
    using first by (rule conjunct1)
  show ?thesis
    using on held first' res absent proactive res2 off res0
    by (intro conjI) assumption+
qed

section \<open>\<^verbatim>\<open>CloudFoundryService\<close>\<close>

lemma find_service_all_named:
  "\<forall>s\<in>set services. \<exists>kvs n. s = PDict kvs \<and> map_of kvs ''name'' = Some (PStr n) \<Longrightarrow>
   find_service False PNone services =
     Inl (CloudantException (PStr ''Missing service in VCAP_SERVICES''))"
  by (induction services) auto

text \<open>
  Claim C6 at an input where the code departs from it. No name is given and two services
  are listed, so \<^verbatim>\<open>use_first\<close> is false; the first service has no \<^verbatim>\<open>name\<close>, its
  \<^verbatim>\<open>service.get('name')\<close> is \<^verbatim>\<open>None\<close> and equals the absent name, and the constructor
  returns that service instead of raising the exception for a missing service.
\<close>

theorem cloud_foundry_unnamed_service_selected:
  "py_len (PList [PDict [(''credentials'', credentials_a)],
                  PDict [(''name'', PStr ''b''), (''credentials'', credentials_b)]]) = Inr 2 \<and>
   CloudFoundryService_init loads_example vcap_two_services None =
     Inr \<lparr>cf_host = PStr ''a.example'', cf_name = PNone, cf_password = PStr ''pa'',
          cf_port = PInt 443, cf_username = PStr ''ua''\<rparr>"
  by (simp add: CloudFoundryService_init_def vcap_two_services_def credentials_a_def
      credentials_b_def read_service_def)

end
